theory Spec2Isabelle
  imports Complex_Main "HOL-Library.Char_ord" "HOL-Library.List_Lexorder" "HOL-Library.AList"
begin

section \<open>Text values\<close>

text \<open>
  A Python \<open>str\<close> is modelled as a \<open>string\<close> whose characters are code points below
  256 (ASCII and Latin-1, the two encodings the CSV reader ends up with for this data).
  On these code points \<open>str.strip()\<close> removes the characters for which \<open>str.isspace()\<close>
  holds: 9 to 13, 28 to 32, 133 and 160; and the regular expression class \<open>\d\<close> is
  exactly the ten ASCII digits.
\<close>

definition isspace :: "char \<Rightarrow> bool" where
  "isspace c = (let n = (of_char c :: nat) in
     (9 \<le> n \<and> n \<le> 13) \<or> (28 \<le> n \<and> n \<le> 32) \<or> n = 133 \<or> n = 160)"

definition strip :: "string \<Rightarrow> string" where
  "strip s = rev (dropWhile isspace (rev (dropWhile isspace s)))"

definition isdigit_ascii :: "char \<Rightarrow> bool" where
  "isdigit_ascii c = (CHR ''0'' \<le> c \<and> c \<le> CHR ''9'')"

text \<open>\<open>str.lower()\<close> on code points below 256: the ASCII capitals and the Latin-1
  capitals 192 to 222 (without the multiplication sign 215) move up by 32.\<close>

definition lower_char :: "char \<Rightarrow> char" where
  "lower_char c = (let n = (of_char c :: nat) in
     if (65 \<le> n \<and> n \<le> 90) \<or> (192 \<le> n \<and> n \<le> 222 \<and> n \<noteq> 215)
     then char_of (n + 32) else c)"

definition lower :: "string \<Rightarrow> string" where
  "lower s = map lower_char s"

section \<open>Numbers read from text\<close>

text \<open>
  \<open>pd.to_numeric(..., errors="coerce")\<close> on a column of text parses each cell with the
  C routine \<open>precise_xstrtod\<close> (decimal point \<open>.\<close>, exponent letter \<open>E\<close>, no thousands
  separator, trailing blanks skipped) and accepts the cell when the whole of it was
  consumed; failing that, it accepts the spellings of infinity. Everything else,
  the missing cell included, becomes NaN, written \<open>None\<close> here.

  The value of an accepted cell is kept as the exact decimal it denotes; the program
  holds the double nearest to it. Cells whose magnitude leaves the range of a double
  are outside the model.
\<close>

datatype numero = Finito rat | Infinito bool

definition isspace_ascii :: "char \<Rightarrow> bool" where
  "isspace_ascii c = (let n = (of_char c :: nat) in (9 \<le> n \<and> n \<le> 13) \<or> n = 32)"

definition valor_digitos :: "string \<Rightarrow> nat" where
  "valor_digitos ds = foldl (\<lambda>n c. 10 * n + (of_char c - 48)) 0 ds"

definition sinal :: "string \<Rightarrow> bool \<times> string" where
  "sinal p = (case p of
       [] \<Rightarrow> (False, [])
     | c # q \<Rightarrow> if c = CHR ''-'' then (True, q)
                else if c = CHR ''+'' then (False, q) else (False, p))"

definition parte_decimal :: "string \<Rightarrow> string \<times> string" where
  "parte_decimal p = (case p of
       [] \<Rightarrow> ([], [])
     | c # q \<Rightarrow> if c = CHR ''.''
                then (takeWhile isdigit_ascii q, dropWhile isdigit_ascii q)
                else ([], p))"

text \<open>The exponent part: the letter, an optional sign and at most 17 digits. With no
  digit after the letter the routine steps back one character, so the rest is never
  empty in that case.\<close>

definition expoente :: "string \<Rightarrow> int \<times> string" where
  "expoente p = (case p of
       [] \<Rightarrow> (0, [])
     | c # q \<Rightarrow>
         if c = CHR ''e'' \<or> c = CHR ''E'' then
           (let (neg, q1) = sinal q;
                ds = takeWhile isdigit_ascii (take 17 q1);
                n = int (valor_digitos ds)
            in if ds = [] then (0, if q1 = q then p else q)
               else (if neg then - n else n, drop (length ds) q1))
         else (0, p))"

definition escala :: "rat \<Rightarrow> int \<Rightarrow> rat" where
  "escala m e = (if 0 \<le> e then m * 10 ^ nat e else m / 10 ^ nat (- e))"

definition precise_xstrtod :: "string \<Rightarrow> (rat \<times> string) option" where
  "precise_xstrtod s =
     (let (neg, p1) = sinal (dropWhile isspace_ascii s);
          ints = takeWhile isdigit_ascii p1;
          (decs, p3) = parte_decimal (dropWhile isdigit_ascii p1)
      in if ints @ decs = [] then None
         else
           (let m = of_nat (valor_digitos (ints @ decs)) / 10 ^ length decs;
                (e, p4) = expoente p3
            in Some (escala (if neg then - m else m) e, dropWhile isspace_ascii p4)))"

definition tolower_ascii :: "char \<Rightarrow> char" where
  "tolower_ascii c = (let n = (of_char c :: nat) in
     if 65 \<le> n \<and> n \<le> 90 then char_of (n + 32) else c)"

definition floatify :: "string \<Rightarrow> numero option" where
  "floatify s =
     (case precise_xstrtod s of
        Some (v, []) \<Rightarrow> Some (Finito v)
      | _ \<Rightarrow>
          (let t = map tolower_ascii s in
           if t = ''inf'' \<or> t = ''+inf'' \<or> t = ''infinity'' \<or> t = ''+infinity''
           then Some (Infinito False)
           else if t = ''-inf'' \<or> t = ''-infinity'' then Some (Infinito True)
           else None))"

definition to_numeric :: "string option \<Rightarrow> numero option" where
  "to_numeric v = (case v of None \<Rightarrow> None | Some s \<Rightarrow> floatify s)"

section \<open>Data frames\<close>

text \<open>
  A data frame is its list of column names and its rows; a row gives the cell of each
  column. The CSV is read with \<open>dtype=str\<close>, so a raw cell is a text or missing
  (\<open>None\<close>, pandas' NaN). After the transformation a cell is a text, a number or
  missing.
\<close>

record 'c dataframe =
  colunas :: "string list"
  linhas :: "(string \<Rightarrow> 'c) list"

datatype celula = Nulo | Texto string | Numero numero

type_synonym linha = "string \<Rightarrow> string option"

type_synonym registro = "string \<Rightarrow> celula"

datatype excecao =
    KeyError
  | IndexError
  | AttributeError
  | TypeError
  | ErroLeitura
  | ErroJSON
  | ErroStore
  | HTTPException nat detalhe
and detalhe = Literal string | Str excecao

definition COLUNAS_MANTER :: "string list" where
  "COLUNAS_MANTER =
     [''EMP_CODIGO'', ''MES_ANO'', ''NUM_FOLHA'', ''SETOR'', ''ORGAO'', ''NUMFUNC'',
      ''NUMVINC'', ''SITUACAO'', ''CARGO'', ''TIPOVINC'', ''RUBRICA'', ''NOME_RUBRICA'',
      ''COMPLEMENTO'', ''COMPETENCIA'', ''INFO'', ''TIPO_PAGAMENTO'', ''TIPO_RUBRICA'',
      ''VDA'', ''VALOR'']"

definition TAMANHO_LOTE :: nat where
  "TAMANHO_LOTE = 500"

section \<open>validar_colunas\<close>

definition faltando :: "string list \<Rightarrow> string list" where
  "faltando cols = filter (\<lambda>c. c \<notin> set cols) COLUNAS_MANTER"

text \<open>The function returns whether the list \<open>faltando\<close> is empty, and prints one line:
  the missing names, or the number of required columns found. The printed line is the
  second component of the result.\<close>

datatype aviso = Ausentes "string list" | Encontradas nat

definition validar_colunas :: "'c dataframe \<Rightarrow> bool \<times> aviso" where
  "validar_colunas df =
     (if faltando (colunas df) \<noteq> [] then (False, Ausentes (faltando (colunas df)))
      else (True, Encontradas (length COLUNAS_MANTER)))"

section \<open>transformar\<close>

text \<open>Steps 1 and 2: keep the required columns, strip every text cell.\<close>

definition limpar :: "linha \<Rightarrow> linha" where
  "limpar r = (\<lambda>c. if c \<in> set COLUNAS_MANTER then map_option strip (r c) else None)"

text \<open>Step 3: \<open>cod\<close> is NUMFUNC followed by NUMVINC, a missing cell read as the empty
  text, stripped again.\<close>

definition fillna :: "string option \<Rightarrow> string" where
  "fillna v = (case v of None \<Rightarrow> [] | Some s \<Rightarrow> s)"

definition criar_cod :: "linha \<Rightarrow> string" where
  "criar_cod r = strip (fillna (r ''NUMFUNC'') @ fillna (r ''NUMVINC''))"

text \<open>Step 4: every comma becomes a dot, every character that is not a digit, a dot or
  a minus sign is removed, and the rest is read as a number.\<close>

definition trocar_virgula :: "string \<Rightarrow> string" where
  "trocar_virgula s = map (\<lambda>c. if c = CHR '','' then CHR ''.'' else c) s"

definition remover_estranhos :: "string \<Rightarrow> string" where
  "remover_estranhos s =
     filter (\<lambda>c. isdigit_ascii c \<or> c = CHR ''.'' \<or> c = CHR ''-'') s"

definition converter_valor :: "string option \<Rightarrow> numero option" where
  "converter_valor v = to_numeric (map_option (remover_estranhos \<circ> trocar_virgula) v)"

text \<open>Step 5: a row stays when its VALOR is a number and its \<open>cod\<close> is not empty
  (\<open>cod\<close> is never missing after \<open>fillna\<close>).\<close>

definition linha_valida :: "linha \<Rightarrow> bool" where
  "linha_valida r = (converter_valor (r ''VALOR'') \<noteq> None \<and> criar_cod r \<noteq> [])"

text \<open>Steps 6 to 9: the lower-case names, without NUMFUNC and NUMVINC, with the two
  import columns; a missing cell is \<open>Nulo\<close>.\<close>

definition RENOMEAR :: "(string \<times> string) list" where
  "RENOMEAR =
     [(''emp_codigo'', ''EMP_CODIGO''), (''mes_ano'', ''MES_ANO''),
      (''num_folha'', ''NUM_FOLHA''), (''setor'', ''SETOR''), (''orgao'', ''ORGAO''),
      (''situacao'', ''SITUACAO''), (''cargo'', ''CARGO''), (''tipovinc'', ''TIPOVINC''),
      (''rubrica'', ''RUBRICA''), (''nome_rubrica'', ''NOME_RUBRICA''),
      (''complemento'', ''COMPLEMENTO''), (''competencia'', ''COMPETENCIA''),
      (''info'', ''INFO''), (''tipo_pagamento'', ''TIPO_PAGAMENTO''),
      (''tipo_rubrica'', ''TIPO_RUBRICA''), (''vda'', ''VDA'')]"

definition COLUNAS_SAIDA :: "string list" where
  "COLUNAS_SAIDA =
     [''emp_codigo'', ''mes_ano'', ''num_folha'', ''setor'', ''orgao'', ''situacao'',
      ''cargo'', ''tipovinc'', ''rubrica'', ''nome_rubrica'', ''complemento'',
      ''competencia'', ''info'', ''tipo_pagamento'', ''tipo_rubrica'', ''vda'', ''valor'',
      ''cod'', ''importado_por'', ''importado_em'']"

definition texto_ou_nulo :: "string option \<Rightarrow> celula" where
  "texto_ou_nulo v = (case v of None \<Rightarrow> Nulo | Some s \<Rightarrow> Texto s)"

definition numero_ou_nulo :: "numero option \<Rightarrow> celula" where
  "numero_ou_nulo v = (case v of None \<Rightarrow> Nulo | Some x \<Rightarrow> Numero x)"

definition montar_registro :: "string \<Rightarrow> string \<Rightarrow> linha \<Rightarrow> registro" where
  "montar_registro usuario agora r =
     (\<lambda>c. if c = ''cod'' then Texto (criar_cod r)
          else if c = ''valor'' then numero_ou_nulo (converter_valor (r ''VALOR''))
          else if c = ''importado_por'' then Texto usuario
          else if c = ''importado_em'' then Texto agora
          else (case map_of RENOMEAR c of
                  None \<Rightarrow> Nulo
                | Some antigo \<Rightarrow> texto_ou_nulo (r antigo)))"

text \<open>
  The whole function. \<open>df[COLUNAS_MANTER]\<close> raises \<open>KeyError\<close> when a required column
  is not there. Beside the new frame the result carries the number of rows removed in
  step 5, \<open>antes - depois\<close>, which the function prints when it is not zero. The clock
  reading of step 8 is the argument \<open>agora\<close>.
\<close>

definition transformar ::
  "string option dataframe \<Rightarrow> string \<Rightarrow> string \<Rightarrow> excecao + (celula dataframe \<times> nat)" where
  "transformar df usuario agora =
     (if faltando (colunas df) \<noteq> [] then Inl KeyError
      else
        (let limpas = map limpar (linhas df);
             validas = filter linha_valida limpas
         in Inr (\<lparr>colunas = COLUNAS_SAIDA,
                   linhas = map (montar_registro usuario agora) validas\<rparr>,
                 length limpas - length validas)))"

section \<open>extrair_mes_ano\<close>

text \<open>
  \<open>Series.mode()\<close> leaves the missing cells out and returns the values that occur most
  often, sorted; \<open>.iloc[0]\<close> of an empty result raises \<open>IndexError\<close>. Texts are
  compared as Python compares them, code point by code point.
\<close>

definition moda :: "string list \<Rightarrow> string list" where
  "moda xs =
     (let m = foldr (\<lambda>x n. max (count_list xs x) n) xs 0
      in sort (remdups (filter (\<lambda>x. count_list xs x = m) xs)))"

definition iloc0 :: "'a list \<Rightarrow> excecao + 'a" where
  "iloc0 xs = (case xs of [] \<Rightarrow> Inl IndexError | x # _ \<Rightarrow> Inr x)"

text \<open>The texts of a column of a transformed frame. The column \<open>mes_ano\<close> holds texts
  and missing cells only: \<open>transformar\<close> makes it from the text cells of MES_ANO.\<close>

definition textos :: "celula list \<Rightarrow> string list" where
  "textos cs = concat (map (\<lambda>c. case c of Texto t \<Rightarrow> [t] | _ \<Rightarrow> []) cs)"

definition extrair_mes_ano :: "celula dataframe \<Rightarrow> excecao + string" where
  "extrair_mes_ano df =
     (if ''mes_ano'' \<in> set (colunas df) then
        (if linhas df \<noteq> []
         then iloc0 (moda (textos (map (\<lambda>r. r ''mes_ano'') (linhas df))))
         else Inr ''DESCONHECIDO'')
      else Inr ''DESCONHECIDO'')"

section \<open>The store\<close>

text \<open>
  The hosted store is an external service. The model keeps its two tables, the list of
  the requests sent to it so far, and for each request, by its position in that list,
  whether the store fails it (\<open>execute()\<close> then raises). A failed request changes no
  table. The filter \<open>eq("mes_ano", v)\<close> is taken to select the rows whose \<open>mes_ano\<close> is the
  text \<open>v\<close>.
\<close>

datatype json =
    JNull
  | JBool bool
  | JNum int
  | JStr string
  | JList "json list"
  | JObj "(string \<times> json) list"

record log_importacao =
  mes_ano :: string
  operacao :: string
  arquivo :: string
  linhas_total :: nat
  linhas_inseridas :: nat
  linhas_erro :: nat
  importado_por :: string
  importado_em :: string

datatype chamada =
    Insert "registro list"
  | Delete json
  | Select json
  | InsertLog log_importacao

record supabase =
  gratificacoes :: "registro list"
  importacoes_log :: "log_importacao list"
  chamadas :: "chamada list"
  falha :: "nat \<Rightarrow> bool"

definition eq_mes_ano :: "json \<Rightarrow> registro \<Rightarrow> bool" where
  "eq_mes_ano v r = (case v of JStr m \<Rightarrow> r ''mes_ano'' = Texto m | _ \<Rightarrow> False)"

text \<open>One request: the answer is the exception raised or the rows of \<open>resultado.data\<close>.\<close>

definition execute :: "chamada \<Rightarrow> supabase \<Rightarrow> (excecao + registro list) \<times> supabase" where
  "execute c s =
     (let s1 = s\<lparr>chamadas := chamadas s @ [c]\<rparr> in
      if falha s (length (chamadas s)) then (Inl ErroStore, s1)
      else
        (case c of
           Insert lote \<Rightarrow> (Inr lote, s1\<lparr>gratificacoes := gratificacoes s @ lote\<rparr>)
         | Delete v \<Rightarrow>
             (Inr (filter (eq_mes_ano v) (gratificacoes s)),
              s1\<lparr>gratificacoes := filter (\<lambda>r. \<not> eq_mes_ano v r) (gratificacoes s)\<rparr>)
         | Select v \<Rightarrow> (Inr (filter (eq_mes_ano v) (gratificacoes s)), s1)
         | InsertLog e \<Rightarrow> (Inr [], s1\<lparr>importacoes_log := importacoes_log s @ [e]\<rparr>)))"

section \<open>deletar_competencia, inserir_em_lotes, registrar_log (ingestao.py)\<close>

definition deletar_competencia :: "supabase \<Rightarrow> string \<Rightarrow> (excecao + nat) \<times> supabase" where
  "deletar_competencia s m =
     (case execute (Delete (JStr m)) s of
        (Inl e, s1) \<Rightarrow> (Inl e, s1)
      | (Inr dados, s1) \<Rightarrow> (Inr (length dados), s1))"

text \<open>
  The loop \<open>for i in range(0, total, TAMANHO_LOTE)\<close>: the batch is the slice
  \<open>registros[i : i + TAMANHO_LOTE]\<close>; a request that raises adds the batch to \<open>erros\<close>
  and the loop goes on.
\<close>

function lotes ::
  "nat \<Rightarrow> registro list \<Rightarrow> supabase \<Rightarrow> nat \<Rightarrow> nat \<Rightarrow> (nat \<times> nat) \<times> supabase" where
  "lotes i registros s inseridos erros =
     (if i < length registros then
        (let lote = take TAMANHO_LOTE (drop i registros) in
         case execute (Insert lote) s of
           (Inr dados, s1) \<Rightarrow>
             lotes (i + TAMANHO_LOTE) registros s1 (inseridos + length lote) erros
         | (Inl e, s1) \<Rightarrow>
             lotes (i + TAMANHO_LOTE) registros s1 inseridos (erros + length lote))
      else ((inseridos, erros), s))"
  by pat_completeness auto
termination
  by (relation "measure (\<lambda>(i, registros, s, inseridos, erros). length registros - i)")
     (auto simp: TAMANHO_LOTE_def)

definition inserir_em_lotes :: "supabase \<Rightarrow> celula dataframe \<Rightarrow> (nat \<times> nat) \<times> supabase" where
  "inserir_em_lotes s df = lotes 0 (linhas df) s 0 0"

text \<open>The clock reading of \<open>registrar_log\<close> is its last argument.\<close>

definition registrar_log ::
  "supabase \<Rightarrow> string \<Rightarrow> string \<Rightarrow> string \<Rightarrow> nat \<Rightarrow> nat \<Rightarrow> nat \<Rightarrow> string \<Rightarrow> string
     \<Rightarrow> (excecao + unit) \<times> supabase" where
  "registrar_log s m op arq n_total n_inseridas n_erro usuario agora =
     (case execute (InsertLog \<lparr>mes_ano = m, operacao = op, arquivo = arq,
                                linhas_total = n_total, linhas_inseridas = n_inseridas,
                                linhas_erro = n_erro, importado_por = usuario,
                                importado_em = agora\<rparr>) s of
        (Inl e, s1) \<Rightarrow> (Inl e, s1)
      | (Inr dados, s1) \<Rightarrow> (Inr (), s1))"

section \<open>The configured users and login (app.py)\<close>

text \<open>\<open>str.split(sep)\<close> and \<open>str.split(sep, 1)\<close> for a separator of one character.\<close>

fun split :: "char \<Rightarrow> string \<Rightarrow> string list" where
  "split sep [] = [[]]"
| "split sep (c # cs) =
     (if c = sep then [] # split sep cs
      else (case split sep cs of
              [] \<Rightarrow> [[c]]
            | w # ws \<Rightarrow> (c # w) # ws))"

definition split1 :: "char \<Rightarrow> string \<Rightarrow> string \<times> string" where
  "split1 sep s = (takeWhile (\<lambda>c. c \<noteq> sep) s, drop 1 (dropWhile (\<lambda>c. c \<noteq> sep) s))"

text \<open>The dictionary \<open>ALLOWED_USERS\<close>, as the module builds it from the environment
  variable: an association list with one entry for each key, a later entry of the
  variable replacing the password of an earlier one.\<close>

definition ALLOWED_USERS :: "string \<Rightarrow> (string \<times> string) list" where
  "ALLOWED_USERS raw =
     (if raw \<noteq> [] then
        foldl (\<lambda>d user_entry.
                 if CHR '':'' \<in> set user_entry then
                   (let (email, password) = split1 (CHR '':'') (strip user_entry)
                    in AList.update (lower (strip email)) (strip password) d)
                 else d)
              [] (split (CHR '','') raw)
      else [])"

definition login ::
  "(string \<times> string) list \<Rightarrow> string \<Rightarrow> string \<Rightarrow> excecao + json" where
  "login usuarios email password =
     (let email_lower = lower (strip email) in
      if usuarios = [] then
        Inl (HTTPException 403
               (Literal (''Sistema n'' @ [CHR 0xE3] @
                         ''o configurado. Entre em contato com o administrador.'')))
      else if map_of usuarios email_lower = Some password then
        Inr (JObj [(''ok'', JBool True), (''email'', JStr email)])
      else Inl (HTTPException 401 (Literal ''E-mail ou senha incorretos'')))"

section \<open>The routes of app.py\<close>

text \<open>
  The bytes of an upload are not modelled. An upload is given by its file name, the
  encoding \<open>chardet\<close> reports for it (possibly none) and what the two attempts of
  \<open>pd.read_csv\<close> make of it: a frame of text cells, or the exception of the second
  attempt. The store client is taken to be configured.
\<close>

record upload =
  filename :: string
  encoding :: "string option"
  lido :: "excecao + string option dataframe"

definition erro500 :: "excecao \<Rightarrow> excecao" where
  "erro500 e = HTTPException 500 (Str e)"

text \<open>\<open>validar_csv\<close>: the dry run. The mode of the raw MES_ANO column is taken with no
  guard for a column without a value.\<close>

definition COLUNAS_PREVIEW :: "string list" where
  "COLUNAS_PREVIEW =
     [''NUMFUNC'', ''NUMVINC'', ''NOME_CARGO'', ''NOME_ORGAO'', ''MES_ANO'', ''COMPETENCIA'',
      ''NOME_RUBRICA'', ''VALOR'']"

definition presentes :: "string option list \<Rightarrow> string list" where
  "presentes cs = concat (map (\<lambda>c. case c of Some t \<Rightarrow> [t] | None \<Rightarrow> []) cs)"

definition mes_ano_bruto :: "string option dataframe \<Rightarrow> excecao + string option" where
  "mes_ano_bruto df =
     (if ''MES_ANO'' \<in> set (colunas df)
      then (case iloc0 (moda (presentes (map (\<lambda>r. r ''MES_ANO'') (linhas df)))) of
              Inl e \<Rightarrow> Inl e
            | Inr m \<Rightarrow> Inr (Some (strip m)))
      else Inr None)"

definition ja_existe :: "string option \<Rightarrow> supabase \<Rightarrow> (excecao + bool) \<times> supabase" where
  "ja_existe m s =
     (case m of
        None \<Rightarrow> (Inr False, s)
      | Some t \<Rightarrow>
          if t = [] then (Inr False, s)
          else (case execute (Select (JStr t)) s of
                  (Inl e, s1) \<Rightarrow> (Inl e, s1)
                | (Inr dados, s1) \<Rightarrow> (Inr (0 < length dados), s1)))"

definition preview :: "string option dataframe \<Rightarrow> json list" where
  "preview df =
     (let colunas_preview = filter (\<lambda>c. c \<in> set (colunas df)) COLUNAS_PREVIEW
      in map (\<lambda>r. JObj (map (\<lambda>c. (c, JStr (fillna (r c)))) colunas_preview))
             (take 5 (linhas df)))"

definition valores_invalidos :: "string option dataframe \<Rightarrow> nat" where
  "valores_invalidos df =
     (if ''VALOR'' \<in> set (colunas df)
      then length (filter (\<lambda>r. to_numeric (map_option trocar_virgula (r ''VALOR'')) = None)
                          (linhas df))
      else 0)"

definition json_opt :: "string option \<Rightarrow> json" where
  "json_opt v = (case v of None \<Rightarrow> JNull | Some t \<Rightarrow> JStr t)"

definition validar_csv :: "upload \<Rightarrow> supabase \<Rightarrow> (excecao + json) \<times> supabase" where
  "validar_csv arq s =
     (case lido arq of
        Inl e \<Rightarrow> (Inl (erro500 e), s)
      | Inr df \<Rightarrow>
          (let colunas_faltando = faltando (colunas df);
               colunas_ok = (length colunas_faltando = 0);
               total_linhas = length (linhas df)
           in case mes_ano_bruto df of
                Inl e \<Rightarrow> (Inl (erro500 e), s)
              | Inr m \<Rightarrow>
                  (case ja_existe m s of
                     (Inl e, s1) \<Rightarrow> (Inl (erro500 e), s1)
                   | (Inr existe, s1) \<Rightarrow>
                       (Inr (JObj
                          [(''ok'', JBool colunas_ok),
                           (''total_linhas'', JNum (int total_linhas)),
                           (''colunas_faltando'', JList (map JStr colunas_faltando)),
                           (''mes_ano'', json_opt m),
                           (''ja_existe'', JBool existe),
                           (''valores_invalidos'', JNum (int (valores_invalidos df))),
                           (''preview'', JList (preview df)),
                           (''encoding'', json_opt (encoding arq))]), s1))))"

text \<open>
  \<open>importar_csv\<close>. The name \<open>deletar_competencia\<close> that the module imports from
  \<open>ingestao\<close> is bound again, further down in \<open>app.py\<close>, to the route of the same name,
  a function of one argument; the call \<open>deletar_competencia(supabase, mes_ano)\<close> of this
  route therefore raises \<open>TypeError\<close>. An \<open>HTTPException\<close> passes the handlers of this
  route unchanged, any other exception becomes the answer 500.
\<close>

definition importar_csv ::
  "upload \<Rightarrow> string \<Rightarrow> bool \<Rightarrow> string \<Rightarrow> string \<Rightarrow> supabase \<Rightarrow> (excecao + json) \<times> supabase" where
  "importar_csv arq usuario substituir agora agora_log s =
     (case lido arq of
        Inl e \<Rightarrow> (Inl (erro500 e), s)
      | Inr df_raw \<Rightarrow>
          if \<not> fst (validar_colunas df_raw) then
            (Inl (HTTPException 400
                    (Literal (''Estrutura do CSV inv'' @ [CHR 0xE1] @ ''lida.''))), s)
          else
            (case transformar df_raw usuario agora of
               Inl e \<Rightarrow> (Inl (erro500 e), s)
             | Inr (df, removidas) \<Rightarrow>
                 (case extrair_mes_ano df of
                    Inl e \<Rightarrow> (Inl (erro500 e), s)
                  | Inr m \<Rightarrow>
                      (let op = (if substituir then ''SUBSTITUICAO'' else ''NOVA'') in
                       if substituir then (Inl (erro500 TypeError), s)
                       else
                         (case inserir_em_lotes s df of
                            ((inseridos, erros), s1) \<Rightarrow>
                              (case registrar_log s1 m op (filename arq) (length (linhas df))
                                      inseridos erros usuario agora_log of
                                 (Inl e, s2) \<Rightarrow> (Inl (erro500 e), s2)
                               | (Inr u, s2) \<Rightarrow>
                                   (Inr (JObj
                                      [(''ok'', JBool True),
                                       (''mes_ano'', JStr m),
                                       (''inseridos'', JNum (int inseridos)),
                                       (''erros'', JNum (int erros)),
                                       (''operacao'', JStr op)]), s2)))))))"

text \<open>
  The route \<open>deletar_competencia\<close> of \<open>app.py\<close>, here \<open>deletar_competencia_rota\<close>. The
  body of the request is what \<open>request.json()\<close> makes of it: a JSON value, or the
  exception it raises. \<open>body.get\<close> exists for an object only. The one handler of the
  route is \<open>except Exception\<close>, which also catches the \<open>HTTPException\<close> raised for a
  missing \<open>mes_ano\<close>.
\<close>

fun truthy :: "json \<Rightarrow> bool" where
  "truthy JNull = False"
| "truthy (JBool b) = b"
| "truthy (JNum n) = (n \<noteq> 0)"
| "truthy (JStr t) = (t \<noteq> [])"
| "truthy (JList vs) = (vs \<noteq> [])"
| "truthy (JObj kvs) = (kvs \<noteq> [])"

definition body_get :: "json \<Rightarrow> string \<Rightarrow> excecao + json" where
  "body_get body k =
     (case body of
        JObj kvs \<Rightarrow> (case map_of kvs k of None \<Rightarrow> Inr JNull | Some v \<Rightarrow> Inr v)
      | _ \<Rightarrow> Inl AttributeError)"

definition deletar_competencia_rota ::
  "excecao + json \<Rightarrow> supabase \<Rightarrow> (excecao + json) \<times> supabase" where
  "deletar_competencia_rota pedido s =
     (case pedido of
        Inl e \<Rightarrow> (Inl (erro500 e), s)
      | Inr body \<Rightarrow>
          (case body_get body ''mes_ano'' of
             Inl e \<Rightarrow> (Inl (erro500 e), s)
           | Inr v \<Rightarrow>
               if \<not> truthy v then
                 (Inl (erro500 (HTTPException 400
                         (Literal (''mes_ano n'' @ [CHR 0xE3] @ ''o fornecido'')))), s)
               else
                 (case execute (Delete v) s of
                    (Inl e, s1) \<Rightarrow> (Inl (erro500 e), s1)
                  | (Inr dados, s1) \<Rightarrow>
                      (Inr (JObj [(''ok'', JBool True),
                                  (''deleted'', JNum (int (length dados)))]), s1))))"

section \<open>Vocabulary of the statements\<close>

text \<open>A cell that is missing or holds white space only.\<close>

definition em_branco :: "string option \<Rightarrow> bool" where
  "em_branco v = (case v of None \<Rightarrow> True | Some s \<Rightarrow> list_all isspace s)"

text \<open>The result of \<open>transformar\<close> with one more row counted as removed.\<close>

definition uma_removida ::
  "excecao + (celula dataframe \<times> nat) \<Rightarrow> excecao + (celula dataframe \<times> nat)" where
  "uma_removida res = map_sum id (\<lambda>(d, n). (d, Suc n)) res"

text \<open>The row of the specification's first end-to-end scenario, with the text of its
  VALOR cell as the argument; the cells the scenario leaves open are missing.\<close>

definition linha_cenario :: "string \<Rightarrow> linha" where
  "linha_cenario v =
     (\<lambda>c. if c = ''EMP_CODIGO'' then Some ''001''
          else if c = ''MES_ANO'' then Some ''01/2024''
          else if c = ''NUMFUNC'' then Some ''123''
          else if c = ''NUMVINC'' then Some ''45''
          else if c = ''VALOR'' then Some v
          else None)"

text \<open>The contiguous batches of size \<open>b\<close> of a list, in order: batch \<open>k\<close> is the slice from
  \<open>k * b\<close> to \<open>k * b + b\<close>, and there are \<open>ceil (length xs / b)\<close> of them.\<close>

definition lotes_esperados :: "nat \<Rightarrow> 'a list \<Rightarrow> 'a list list" where
  "lotes_esperados b xs =
     map (\<lambda>k. take b (drop (k * b) xs)) [0..<(length xs + b - 1) div b]"

text \<open>The total size of those batches, sent as the requests number \<open>n\<close>, \<open>n + 1\<close>, ...,
  whose request number satisfies \<open>p\<close>.\<close>

definition tamanho_dos :: "(nat \<Rightarrow> bool) \<Rightarrow> nat \<Rightarrow> 'a list list \<Rightarrow> nat" where
  "tamanho_dos p n bs =
     sum_list (map (\<lambda>(k, l). if p k then length l else 0) (enumerate n bs))"

text \<open>A request that reads the store and changes nothing.\<close>

fun somente_leitura :: "chamada \<Rightarrow> bool" where
  "somente_leitura (Select v) = True"
| "somente_leitura (Insert lote) = False"
| "somente_leitura (Delete v) = False"
| "somente_leitura (InsertLog e) = False"

text \<open>Concrete data for the examples: an empty store whose failing requests are given,
  a transformed row, and an upload read without error.\<close>

definition store_cenario :: "(nat \<Rightarrow> bool) \<Rightarrow> supabase" where
  "store_cenario f = \<lparr>gratificacoes = [], importacoes_log = [], chamadas = [], falha = f\<rparr>"

definition registro_cenario :: registro where
  "registro_cenario =
     montar_registro ''ana'' ''2024-02-01T10:00:00'' (limpar (linha_cenario ''1234,56''))"

definition upload_cenario :: "string list \<Rightarrow> linha list \<Rightarrow> upload" where
  "upload_cenario cols rows =
     \<lparr>filename = ''jan.csv'', encoding = Some ''utf-8'',
      lido = Inr \<lparr>colunas = cols, linhas = rows\<rparr>\<rparr>"

section \<open>Properties of the transformation\<close>

lemma strip_all_space: "list_all isspace s \<Longrightarrow> strip s = []"
  by (auto simp: strip_def list_all_iff dest: set_dropWhileD)

lemma strip_Nil: "strip [] = []"
  by (simp add: strip_def)

lemma limpar_manter: "c \<in> set COLUNAS_MANTER \<Longrightarrow> limpar r c = map_option strip (r c)"
  by (simp add: limpar_def)

lemma manter_NUMFUNC: "''NUMFUNC'' \<in> set COLUNAS_MANTER"
  by (simp add: COLUNAS_MANTER_def)

lemma manter_NUMVINC: "''NUMVINC'' \<in> set COLUNAS_MANTER"
  by (simp add: COLUNAS_MANTER_def)

lemma manter_VALOR: "''VALOR'' \<in> set COLUNAS_MANTER"
  by (simp add: COLUNAS_MANTER_def)

lemma fillna_em_branco: "em_branco v \<Longrightarrow> fillna (map_option strip v) = []"
  by (cases v) (simp_all add: em_branco_def fillna_def strip_all_space)

lemma transformar_remove:
  assumes "\<not> linha_valida (limpar r)"
  shows "transformar \<lparr>colunas = cols, linhas = xs @ r # ys\<rparr> usuario agora =
         uma_removida (transformar \<lparr>colunas = cols, linhas = xs @ ys\<rparr> usuario agora)"
proof -
  let ?f = "filter linha_valida"
  have "length (?f (map limpar xs)) \<le> length (map limpar xs)"
    and "length (?f (map limpar ys)) \<le> length (map limpar ys)"
    by (rule length_filter_le)+
  then have le: "length (?f (map limpar xs)) + length (?f (map limpar ys)) \<le> length xs + length ys"
    by (simp only: length_map add_mono)
  show ?thesis
    using assms le by (simp add: transformar_def uma_removida_def Let_def Suc_diff_le)
qed

lemma cod_vazio:
  assumes "em_branco (r ''NUMFUNC'')" and "em_branco (r ''NUMVINC'')"
  shows "criar_cod (limpar r) = []"
  using assms
  by (simp add: criar_cod_def limpar_manter manter_NUMFUNC manter_NUMVINC fillna_em_branco strip_Nil)

text \<open>
  Claim C9. A row whose NUMFUNC and NUMVINC are each missing or made of white space only
  gets the empty \<open>cod\<close>, and \<open>transformar\<close> leaves it out: wherever the row stands in
  the frame, the result is the one of the frame without it, with one more row counted
  as removed.
\<close>

theorem sem_cod_linha_removida:
  assumes "em_branco (r ''NUMFUNC'')" and "em_branco (r ''NUMVINC'')"
  shows "criar_cod (limpar r) = [] \<and>
         \<not> linha_valida (limpar r) \<and>
         transformar \<lparr>colunas = cols, linhas = xs @ r # ys\<rparr> usuario agora =
         uma_removida (transformar \<lparr>colunas = cols, linhas = xs @ ys\<rparr> usuario agora)"
proof -
  have c: "criar_cod (limpar r) = []" using assms by (rule cod_vazio)
  then have v: "\<not> linha_valida (limpar r)" by (simp add: linha_valida_def)
  from c v transformar_remove [OF v] show ?thesis by simp
qed

text \<open>
  Claim C3, as amended. A row whose VALOR is missing, or is not a number after being
  stripped, having its commas replaced by dots and every character other than a digit,
  a dot or a minus sign removed, is left out by \<open>transformar\<close> and counted as removed.
\<close>

theorem valor_invalido_linha_removida:
  assumes "to_numeric (map_option (remover_estranhos \<circ> trocar_virgula \<circ> strip) (r ''VALOR'')) = None"
  shows "\<not> linha_valida (limpar r) \<and>
         transformar \<lparr>colunas = cols, linhas = xs @ r # ys\<rparr> usuario agora =
         uma_removida (transformar \<lparr>colunas = cols, linhas = xs @ ys\<rparr> usuario agora)"
proof -
  have "converter_valor (limpar r ''VALOR'') = None"
    using assms by (simp add: converter_valor_def limpar_manter manter_VALOR option.map_comp comp_assoc)
  then have v: "\<not> linha_valida (limpar r)" by (simp add: linha_valida_def)
  from v transformar_remove [OF v] show ?thesis by simp
qed

lemma faltando_vazio: "(faltando cols = []) = (set COLUNAS_MANTER \<subseteq> set cols)"
  by (auto simp: faltando_def filter_empty_conv)

lemma faltando_MANTER: "faltando COLUNAS_MANTER = []"
  by (simp add: faltando_vazio)

lemma transformar_uma:
  assumes "faltando cols = []"
  shows "transformar \<lparr>colunas = cols, linhas = [r]\<rparr> usuario agora =
         (if linha_valida (limpar r)
          then Inr (\<lparr>colunas = COLUNAS_SAIDA,
                      linhas = [montar_registro usuario agora (limpar r)]\<rparr>, 0)
          else Inr (\<lparr>colunas = COLUNAS_SAIDA, linhas = []\<rparr>, 1))"
  using assms by (simp add: transformar_def)

lemma strip_sem_espaco:
  assumes "s \<noteq> []" and "\<not> isspace (hd s)" and "\<not> isspace (last s)"
  shows "strip s = s"
proof -
  from assms have a: "dropWhile isspace s = s" by (cases s) simp_all
  from assms have "dropWhile isspace (rev s) = rev s"
    by (cases "rev s") (simp_all add: hd_rev)
  with a show ?thesis by (simp add: strip_def)
qed

lemma strip_12345: "strip ''12345'' = ''12345''"
  by (rule strip_sem_espaco) (simp_all add: isspace_def)

lemma strip_123: "strip ''123'' = ''123''"
  by (rule strip_sem_espaco) (simp_all add: isspace_def)

lemma strip_45: "strip ''45'' = ''45''"
  by (rule strip_sem_espaco) (simp_all add: isspace_def)

lemma cod_12345:
  assumes "r ''NUMFUNC'' = Some ''123''" and "r ''NUMVINC'' = Some ''45''"
  shows "criar_cod (limpar r) = ''12345''"
proof -
  have "fillna (limpar r ''NUMFUNC'') @ fillna (limpar r ''NUMVINC'') = ''12345''"
    using assms
    by (simp add: limpar_manter manter_NUMFUNC manter_NUMVINC fillna_def strip_123 strip_45)
  then show ?thesis by (simp add: criar_cod_def strip_12345)
qed

lemma normal_1_234_56: "remover_estranhos (trocar_virgula (strip ''1.234,56'')) = ''1.234.56''"
proof -
  have "strip ''1.234,56'' = ''1.234,56''"
    by (rule strip_sem_espaco) (simp_all add: isspace_def)
  then show ?thesis
    by (simp add: remover_estranhos_def trocar_virgula_def isdigit_ascii_def)
qed

lemma normal_1234_56: "remover_estranhos (trocar_virgula (strip ''1234,56'')) = ''1234.56''"
proof -
  have "strip ''1234,56'' = ''1234,56''"
    by (rule strip_sem_espaco) (simp_all add: isspace_def)
  then show ?thesis
    by (simp add: remover_estranhos_def trocar_virgula_def isdigit_ascii_def)
qed

lemma xstrtod_1_234_56: "precise_xstrtod ''1.234.56'' = Some (1234 / 1000, ''.56'')"
  by (simp add: precise_xstrtod_def sinal_def parte_decimal_def expoente_def
      isspace_ascii_def isdigit_ascii_def valor_digitos_def escala_def)

lemma floatify_1_234_56: "floatify ''1.234.56'' = None"
  by (simp add: floatify_def xstrtod_1_234_56 Let_def tolower_ascii_def)

lemma xstrtod_1234_56: "precise_xstrtod ''1234.56'' = Some (123456 / 100, [])"
  by (simp add: precise_xstrtod_def sinal_def parte_decimal_def expoente_def
      isspace_ascii_def isdigit_ascii_def valor_digitos_def escala_def)

lemma floatify_1234_56: "floatify ''1234.56'' = Some (Finito (123456 / 100))"
  by (simp add: floatify_def xstrtod_1234_56)

lemma converter_limpar:
  "converter_valor (limpar r ''VALOR'') =
   to_numeric (map_option (remover_estranhos \<circ> trocar_virgula \<circ> strip) (r ''VALOR''))"
  by (simp add: converter_valor_def limpar_manter manter_VALOR option.map_comp comp_assoc)

text \<open>
  Claim C1, as amended. For a row with NUMFUNC \<open>123\<close> and NUMVINC \<open>45\<close> the \<open>cod\<close> is
  \<open>12345\<close>. With the VALOR \<open>1.234,56\<close> the text after step 4 is \<open>1.234.56\<close>, which is
  not a number, so the row is removed and counted. With the VALOR \<open>1234,56\<close> the row
  stays, with \<open>cod = 12345\<close> and \<open>valor = 1234.56\<close>.
\<close>

theorem cenario1_valor:
  assumes "faltando cols = []"
    and "r ''NUMFUNC'' = Some ''123''" and "r ''NUMVINC'' = Some ''45''"
  shows "criar_cod (limpar r) = ''12345'' \<and>
         remover_estranhos (trocar_virgula (strip ''1.234,56'')) = ''1.234.56'' \<and>
         floatify ''1.234.56'' = None \<and>
         transformar \<lparr>colunas = cols, linhas = [r(''VALOR'' := Some ''1.234,56'')]\<rparr>
           usuario agora = Inr (\<lparr>colunas = COLUNAS_SAIDA, linhas = []\<rparr>, 1) \<and>
         (\<exists>reg. transformar \<lparr>colunas = cols, linhas = [r(''VALOR'' := Some ''1234,56'')]\<rparr>
                  usuario agora = Inr (\<lparr>colunas = COLUNAS_SAIDA, linhas = [reg]\<rparr>, 0) \<and>
                reg ''cod'' = Texto ''12345'' \<and>
                reg ''valor'' = Numero (Finito (123456 / 100)))"
proof -
  let ?a = "r(''VALOR'' := Some ''1.234,56'')"
  let ?b = "r(''VALOR'' := Some ''1234,56'')"
  have cod: "criar_cod (limpar r) = ''12345''"
    using assms(2,3) by (rule cod_12345)
  have coda: "criar_cod (limpar ?a) = ''12345''"
    by (rule cod_12345) (simp_all add: assms)
  have codb: "criar_cod (limpar ?b) = ''12345''"
    by (rule cod_12345) (simp_all add: assms)
  have va: "converter_valor (limpar ?a ''VALOR'') = None"
    by (simp add: converter_limpar to_numeric_def normal_1_234_56 floatify_1_234_56)
  have vb: "converter_valor (limpar ?b ''VALOR'') = Some (Finito (123456 / 100))"
    by (simp add: converter_limpar to_numeric_def normal_1234_56 floatify_1234_56)
  have ta: "transformar \<lparr>colunas = cols, linhas = [?a]\<rparr> usuario agora =
            Inr (\<lparr>colunas = COLUNAS_SAIDA, linhas = []\<rparr>, 1)"
    using va by (simp add: transformar_uma [OF assms(1)] linha_valida_def)
  have tb: "transformar \<lparr>colunas = cols, linhas = [?b]\<rparr> usuario agora =
            Inr (\<lparr>colunas = COLUNAS_SAIDA,
                   linhas = [montar_registro usuario agora (limpar ?b)]\<rparr>, 0)"
    using vb codb by (simp add: transformar_uma [OF assms(1)] linha_valida_def)
  have rc: "montar_registro usuario agora (limpar ?b) ''cod'' = Texto ''12345''"
    using codb by (simp add: montar_registro_def)
  have rv: "montar_registro usuario agora (limpar ?b) ''valor'' = Numero (Finito (123456 / 100))"
    using vb by (simp add: montar_registro_def numero_ou_nulo_def)
  from tb rc rv have ex: "\<exists>reg. transformar \<lparr>colunas = cols, linhas = [?b]\<rparr>
                  usuario agora = Inr (\<lparr>colunas = COLUNAS_SAIDA, linhas = [reg]\<rparr>, 0) \<and>
                reg ''cod'' = Texto ''12345'' \<and>
                reg ''valor'' = Numero (Finito (123456 / 100))"
    by blast
  from cod normal_1_234_56 floatify_1_234_56 ta ex show ?thesis by blast
qed

text \<open>
  The amended C1 at the row of the specification's first scenario.
\<close>

theorem cenario1_valor_witness:
  "faltando COLUNAS_MANTER = [] \<and> linha_cenario ''x'' ''NUMFUNC'' = Some ''123'' \<and>
   linha_cenario ''x'' ''NUMVINC'' = Some ''45'' \<and>
   criar_cod (limpar (linha_cenario ''x'')) = ''12345'' \<and>
   transformar \<lparr>colunas = COLUNAS_MANTER,
                  linhas = [(linha_cenario ''x'')(''VALOR'' := Some ''1.234,56'')]\<rparr>
     ''ana'' ''2024-02-01T10:00:00'' = Inr (\<lparr>colunas = COLUNAS_SAIDA, linhas = []\<rparr>, 1)"
proof -
  have a: "linha_cenario ''x'' ''NUMFUNC'' = Some ''123''"
    and b: "linha_cenario ''x'' ''NUMVINC'' = Some ''45''"
    by (simp_all add: linha_cenario_def)
  from cenario1_valor [OF faltando_MANTER a b, of "''ana''" "''2024-02-01T10:00:00''"]
    faltando_MANTER a b
  show ?thesis by blast
qed

text \<open>
  Claim C1 as the specification states it fails: the row of the first scenario, with the
  VALOR \<open>1.234,56\<close>, does not survive; the result has no row and one row removed.
\<close>

theorem cenario1_counterexample:
  "transformar \<lparr>colunas = COLUNAS_MANTER, linhas = [linha_cenario ''1.234,56'']\<rparr>
     ''ana'' ''2024-02-01T10:00:00'' = Inr (\<lparr>colunas = COLUNAS_SAIDA, linhas = []\<rparr>, 1)"
proof -
  have "converter_valor (limpar (linha_cenario ''1.234,56'') ''VALOR'') = None"
    by (simp add: converter_limpar linha_cenario_def to_numeric_def normal_1_234_56
        floatify_1_234_56)
  then show ?thesis
    by (simp add: transformar_uma [OF faltando_MANTER] linha_valida_def)
qed

lemma transformar_vazio:
  "transformar \<lparr>colunas = COLUNAS_MANTER, linhas = []\<rparr> usuario agora =
   Inr (\<lparr>colunas = COLUNAS_SAIDA, linhas = []\<rparr>, 0)"
  by (simp add: transformar_def faltando_MANTER)

text \<open>
  Claim C3 as the specification states it fails: the VALOR \<open>R$ 10,50\<close> is not a number
  after the commas are replaced by dots, and yet the row stays, with the value 10.5,
  and no row is counted as removed.
\<close>

theorem valor_invalido_counterexample:
  "to_numeric (map_option trocar_virgula (linha_cenario ''R$ 10,50'' ''VALOR'')) = None \<and>
   transformar \<lparr>colunas = COLUNAS_MANTER, linhas = [linha_cenario ''R$ 10,50'']\<rparr>
     ''ana'' ''2024-02-01T10:00:00'' =
   Inr (\<lparr>colunas = COLUNAS_SAIDA,
          linhas = [montar_registro ''ana'' ''2024-02-01T10:00:00''
                      (limpar (linha_cenario ''R$ 10,50''))]\<rparr>, 0) \<and>
   montar_registro ''ana'' ''2024-02-01T10:00:00'' (limpar (linha_cenario ''R$ 10,50''))
     ''valor'' = Numero (Finito (21 / 2))"
proof -
  have x: "precise_xstrtod ''R$ 10.50'' = None"
    by (simp add: precise_xstrtod_def sinal_def parte_decimal_def isspace_ascii_def
        isdigit_ascii_def)
  have a: "to_numeric (map_option trocar_virgula (linha_cenario ''R$ 10,50'' ''VALOR'')) = None"
    by (simp add: linha_cenario_def to_numeric_def trocar_virgula_def floatify_def x
        Let_def tolower_ascii_def)
  have s: "strip ''R$ 10,50'' = ''R$ 10,50''"
    by (rule strip_sem_espaco) (simp_all add: isspace_def)
  have n: "remover_estranhos (trocar_virgula (strip ''R$ 10,50'')) = ''10.50''"
    by (simp add: s remover_estranhos_def trocar_virgula_def isdigit_ascii_def)
  have y: "precise_xstrtod ''10.50'' = Some (21 / 2, [])"
    by (simp add: precise_xstrtod_def sinal_def parte_decimal_def expoente_def
        isspace_ascii_def isdigit_ascii_def valor_digitos_def escala_def)
  have v: "converter_valor (limpar (linha_cenario ''R$ 10,50'') ''VALOR'') =
           Some (Finito (21 / 2))"
    by (simp add: converter_limpar linha_cenario_def to_numeric_def n floatify_def y)
  have c: "criar_cod (limpar (linha_cenario ''R$ 10,50'')) = ''12345''"
    by (rule cod_12345) (simp_all add: linha_cenario_def)
  have t: "transformar \<lparr>colunas = COLUNAS_MANTER, linhas = [linha_cenario ''R$ 10,50'']\<rparr>
     ''ana'' ''2024-02-01T10:00:00'' =
   Inr (\<lparr>colunas = COLUNAS_SAIDA,
          linhas = [montar_registro ''ana'' ''2024-02-01T10:00:00''
                      (limpar (linha_cenario ''R$ 10,50''))]\<rparr>, 0)"
    using v c by (simp add: transformar_uma [OF faltando_MANTER] linha_valida_def)
  have m: "montar_registro ''ana'' ''2024-02-01T10:00:00'' (limpar (linha_cenario ''R$ 10,50''))
     ''valor'' = Numero (Finito (21 / 2))"
    using v by (simp add: montar_registro_def numero_ou_nulo_def)
  from a t m show ?thesis by blast
qed

text \<open>
  The amended C3 at the VALOR \<open>abc\<close>, of which nothing is left after the removal.
\<close>

theorem valor_invalido_linha_removida_witness:
  "to_numeric (map_option (remover_estranhos \<circ> trocar_virgula \<circ> strip)
       (linha_cenario ''abc'' ''VALOR'')) = None \<and>
   transformar \<lparr>colunas = COLUNAS_MANTER, linhas = [] @ linha_cenario ''abc'' # []\<rparr>
     ''ana'' ''2024-02-01T10:00:00'' =
   Inr (\<lparr>colunas = COLUNAS_SAIDA, linhas = []\<rparr>, 1)"
proof -
  have s: "strip ''abc'' = ''abc''"
    by (rule strip_sem_espaco) (simp_all add: isspace_def)
  have x: "precise_xstrtod [] = None"
    by (simp add: precise_xstrtod_def sinal_def parte_decimal_def)
  have h: "to_numeric (map_option (remover_estranhos \<circ> trocar_virgula \<circ> strip)
       (linha_cenario ''abc'' ''VALOR'')) = None"
    by (simp add: linha_cenario_def to_numeric_def s remover_estranhos_def trocar_virgula_def
        isdigit_ascii_def floatify_def x tolower_ascii_def)
  have "transformar \<lparr>colunas = COLUNAS_MANTER, linhas = [] @ linha_cenario ''abc'' # []\<rparr>
     ''ana'' ''2024-02-01T10:00:00'' =
     uma_removida (transformar \<lparr>colunas = COLUNAS_MANTER, linhas = [] @ []\<rparr>
       ''ana'' ''2024-02-01T10:00:00'')"
    using valor_invalido_linha_removida [where r = "linha_cenario ''abc''"] h by blast
  with h show ?thesis by (simp add: transformar_vazio uma_removida_def)
qed

text \<open>
  The statement of C9 at a row with NUMFUNC = two blanks and NUMVINC missing.
\<close>

theorem sem_cod_linha_removida_witness:
  "em_branco (((linha_cenario ''1,0'')(''NUMFUNC'' := Some ''  '', ''NUMVINC'' := None))
      ''NUMFUNC'') \<and>
   em_branco (((linha_cenario ''1,0'')(''NUMFUNC'' := Some ''  '', ''NUMVINC'' := None))
      ''NUMVINC'') \<and>
   criar_cod (limpar ((linha_cenario ''1,0'')(''NUMFUNC'' := Some ''  '', ''NUMVINC'' := None)))
     = [] \<and>
   transformar \<lparr>colunas = COLUNAS_MANTER,
       linhas = [] @ (linha_cenario ''1,0'')(''NUMFUNC'' := Some ''  '', ''NUMVINC'' := None)
                # []\<rparr>
     ''ana'' ''2024-02-01T10:00:00'' =
   Inr (\<lparr>colunas = COLUNAS_SAIDA, linhas = []\<rparr>, 1)"
proof -
  let ?r = "(linha_cenario ''1,0'')(''NUMFUNC'' := Some ''  '', ''NUMVINC'' := None)"
  have a: "em_branco (?r ''NUMFUNC'')" by (simp add: em_branco_def isspace_def)
  have b: "em_branco (?r ''NUMVINC'')" by (simp add: em_branco_def)
  have c: "criar_cod (limpar ?r) = []"
    and t: "transformar \<lparr>colunas = COLUNAS_MANTER, linhas = [] @ ?r # []\<rparr>
     ''ana'' ''2024-02-01T10:00:00'' =
     uma_removida (transformar \<lparr>colunas = COLUNAS_MANTER, linhas = [] @ []\<rparr>
       ''ana'' ''2024-02-01T10:00:00'')"
    using sem_cod_linha_removida [OF a b] by blast+
  have "transformar \<lparr>colunas = COLUNAS_MANTER, linhas = [] @ ?r # []\<rparr>
     ''ana'' ''2024-02-01T10:00:00'' = Inr (\<lparr>colunas = COLUNAS_SAIDA, linhas = []\<rparr>, 1)"
    unfolding t by (simp add: transformar_vazio uma_removida_def)
  with a b c show ?thesis by blast
qed

section \<open>Properties of the batch insertion\<close>


lemma lotes_esperados_Nil: "0 < b \<Longrightarrow> lotes_esperados b [] = []"
  by (simp add: lotes_esperados_def)

lemma n_lotes_Suc:
  assumes "0 < b" and "0 < n"
  shows "(n + b - 1) div b = Suc ((n - b + b - 1) div b)"
proof (cases "n \<le> b")
  case True
  with assms have "(n + b - 1) div b = 1"
    by (intro div_nat_eqI) auto
  with True assms show ?thesis by simp
next
  case False
  then have "n + b - 1 = (n - b + b - 1) + b" by simp
  then have "(n + b - 1) div b = (n - b + b - 1) div b + 1"
    using assms by (metis div_add_self2 less_numeral_extra(3))
  then show ?thesis by simp
qed

lemma lotes_esperados_Cons:
  assumes "0 < b" and "xs \<noteq> []"
  shows "lotes_esperados b xs = take b xs # lotes_esperados b (drop b xs)"
proof -
  have n: "(length xs + b - 1) div b = Suc ((length (drop b xs) + b - 1) div b)"
    using n_lotes_Suc [OF assms(1), of "length xs"] assms(2) by simp
  have m: "map (\<lambda>k. take b (drop (k * b) xs)) [0..<Suc m] =
        take b xs # map (\<lambda>k. take b (drop (k * b) (drop b xs))) [0..<m]" for m
    by (simp add: upt_conv_Cons map_Suc_upt [symmetric] del: upt_Suc) (simp add: add.commute)
  show ?thesis unfolding lotes_esperados_def n m ..
qed

lemma concat_lotes_esperados: "0 < b \<Longrightarrow> concat (lotes_esperados b xs) = xs"
proof (induction "length xs" arbitrary: xs rule: less_induct)
  case less
  show ?case
  proof (cases "xs = []")
    case True
    with less.prems show ?thesis by (simp add: lotes_esperados_Nil)
  next
    case False
    with less.prems have "length (drop b xs) < length xs" by simp
    then have "concat (lotes_esperados b (drop b xs)) = drop b xs"
      using less.hyps less.prems by blast
    then show ?thesis using less.prems False by (simp add: lotes_esperados_Cons)
  qed
qed

lemma lotes_nao_vazios: "0 < b \<Longrightarrow> l \<in> set (lotes_esperados b xs) \<Longrightarrow> l \<noteq> [] \<and> length l \<le> b"
proof (induction "length xs" arbitrary: xs rule: less_induct)
  case less
  show ?case
  proof (cases "xs = []")
    case True
    with less.prems show ?thesis by (simp add: lotes_esperados_Nil)
  next
    case False
    with less.prems have d: "length (drop b xs) < length xs" by simp
    from less.prems False consider "l = take b xs" | "l \<in> set (lotes_esperados b (drop b xs))"
      by (auto simp: lotes_esperados_Cons)
    then show ?thesis
    proof cases
      case 1
      with False less.prems show ?thesis by simp
    next
      case 2
      with less.hyps [OF d] less.prems show ?thesis by blast
    qed
  qed
qed

lemma ceil_div: "(n + 499) div 500 = nat \<lceil>real n / 500\<rceil>"
proof -
  have "\<lceil>real n / 500\<rceil> = \<lceil>of_int (int n) / (of_int 500 :: real)\<rceil>" by simp
  also have "\<dots> = - (- int n div 500)" by (rule ceiling_divide_eq_div)
  finally have "\<lceil>real n / 500\<rceil> = - (- int n div 500)" .
  moreover have "- (- int n div 500) = int ((n + 499) div 500)" by (simp add: zdiv_int)
  ultimately show ?thesis by simp
qed

lemma tamanho_dos_Nil: "tamanho_dos p n [] = 0"
  by (simp add: tamanho_dos_def)

lemma tamanho_dos_Cons:
  "tamanho_dos p n (l # bs) = (if p n then length l else 0) + tamanho_dos p (Suc n) bs"
  by (simp add: tamanho_dos_def)

lemma tamanho_dos_total:
  "tamanho_dos p n bs + tamanho_dos (\<lambda>k. \<not> p k) n bs = length (concat bs)"
  by (induction bs arbitrary: n) (simp_all add: tamanho_dos_Nil tamanho_dos_Cons)

lemma execute_Insert:
  "execute (Insert l) s =
     (if falha s (length (chamadas s))
      then (Inl ErroStore, s\<lparr>chamadas := chamadas s @ [Insert l]\<rparr>)
      else (Inr l, s\<lparr>chamadas := chamadas s @ [Insert l],
                      gratificacoes := gratificacoes s @ l\<rparr>))"
  by (simp add: execute_def Let_def)

lemma lotes_fim: "\<not> i < length regs \<Longrightarrow> lotes i regs s a e = ((a, e), s)"
  by (simp add: lotes.simps [of i])

lemma lotes_falha:
  "i < length regs \<Longrightarrow> falha s (length (chamadas s)) \<Longrightarrow>
   lotes i regs s a e =
   lotes (i + TAMANHO_LOTE) regs
     (s\<lparr>chamadas := chamadas s @ [Insert (take TAMANHO_LOTE (drop i regs))]\<rparr>)
     a (e + length (take TAMANHO_LOTE (drop i regs)))"
  by (subst lotes.simps) (simp add: execute_Insert Let_def)

lemma lotes_sucesso:
  "i < length regs \<Longrightarrow> \<not> falha s (length (chamadas s)) \<Longrightarrow>
   lotes i regs s a e =
   lotes (i + TAMANHO_LOTE) regs
     (s\<lparr>chamadas := chamadas s @ [Insert (take TAMANHO_LOTE (drop i regs))],
        gratificacoes := gratificacoes s @ take TAMANHO_LOTE (drop i regs)\<rparr>)
     (a + length (take TAMANHO_LOTE (drop i regs))) e"
  by (subst lotes.simps) (simp add: execute_Insert Let_def)

lemma TAMANHO_LOTE_pos: "0 < TAMANHO_LOTE"
  by (simp add: TAMANHO_LOTE_def)

lemma lotes_inv:
  "lotes i regs s a e = ((a', e'), s') \<Longrightarrow>
   chamadas s' = chamadas s @ map Insert (lotes_esperados TAMANHO_LOTE (drop i regs)) \<and>
   falha s' = falha s \<and> importacoes_log s' = importacoes_log s \<and>
   a' = a + tamanho_dos (\<lambda>k. \<not> falha s k) (length (chamadas s))
              (lotes_esperados TAMANHO_LOTE (drop i regs)) \<and>
   e' = e + tamanho_dos (falha s) (length (chamadas s))
              (lotes_esperados TAMANHO_LOTE (drop i regs))"
proof (induction i regs s a e arbitrary: a' e' s' rule: lotes.induct)
  case (1 i regs s a e)
  let ?l = "take TAMANHO_LOTE (drop i regs)"
  show ?case
  proof (cases "i < length regs")
    case False
    with "1.prems" show ?thesis
      by (simp add: lotes_fim lotes_esperados_Nil TAMANHO_LOTE_pos tamanho_dos_Nil)
  next
    case True
    then have ne: "drop i regs \<noteq> []" by simp
    have bs: "lotes_esperados TAMANHO_LOTE (drop i regs) =
              ?l # lotes_esperados TAMANHO_LOTE (drop (i + TAMANHO_LOTE) regs)"
      by (simp add: lotes_esperados_Cons [OF TAMANHO_LOTE_pos ne] add.commute)
    show ?thesis
    proof (cases "falha s (length (chamadas s))")
      case f: True
      let ?s1 = "s\<lparr>chamadas := chamadas s @ [Insert ?l]\<rparr>"
      have ex: "(Inl ErroStore, ?s1) = execute (Insert ?l) s"
        using f by (simp add: execute_Insert)
      from "1.prems" have "lotes (i + TAMANHO_LOTE) regs ?s1 a (e + length ?l) = ((a', e'), s')"
        by (simp only: lotes_falha [OF True f])
      from "1.IH"(1) [OF True refl ex refl this] f show ?thesis
        by (simp add: bs tamanho_dos_Cons)
    next
      case f: False
      let ?s1 = "s\<lparr>chamadas := chamadas s @ [Insert ?l],
                   gratificacoes := gratificacoes s @ ?l\<rparr>"
      have ex: "(Inr ?l, ?s1) = execute (Insert ?l) s"
        using f by (simp add: execute_Insert)
      from "1.prems" have "lotes (i + TAMANHO_LOTE) regs ?s1 (a + length ?l) e = ((a', e'), s')"
        by (simp only: lotes_sucesso [OF True f])
      from "1.IH"(2) [OF True refl ex refl this] f show ?thesis
        by (simp add: bs tamanho_dos_Cons)
    qed
  qed
qed

text \<open>
  Claim C4. For every frame of \<open>N\<close> rows and every store, \<open>inserir_em_lotes\<close> sends one
  insert request for each contiguous batch of 500 rows, in order, \<open>ceil (N / 500)\<close>
  requests in all, whatever the store answers to the earlier ones; the batches together
  are the rows; \<open>erros\<close> is the total size of the batches whose request failed,
  \<open>inseridos\<close> the total size of the others, and the two add up to \<open>N\<close>.
\<close>

theorem inserir_em_lotes_por_lote:
  assumes "inserir_em_lotes s df = ((inseridos, erros), s1)"
  shows "chamadas s1 = chamadas s @ map Insert (lotes_esperados TAMANHO_LOTE (linhas df)) \<and>
         length (lotes_esperados TAMANHO_LOTE (linhas df)) =
           nat \<lceil>real (length (linhas df)) / 500\<rceil> \<and>
         concat (lotes_esperados TAMANHO_LOTE (linhas df)) = linhas df \<and>
         inseridos + erros = length (linhas df) \<and>
         erros = tamanho_dos (falha s) (length (chamadas s))
                   (lotes_esperados TAMANHO_LOTE (linhas df)) \<and>
         inseridos = tamanho_dos (\<lambda>k. \<not> falha s k) (length (chamadas s))
                       (lotes_esperados TAMANHO_LOTE (linhas df))"
proof -
  let ?bs = "lotes_esperados TAMANHO_LOTE (linhas df)"
  from assms have "lotes 0 (linhas df) s 0 0 = ((inseridos, erros), s1)"
    by (simp add: inserir_em_lotes_def)
  from lotes_inv [OF this]
  have c: "chamadas s1 = chamadas s @ map Insert ?bs"
    and a: "inseridos = tamanho_dos (\<lambda>k. \<not> falha s k) (length (chamadas s)) ?bs"
    and e: "erros = tamanho_dos (falha s) (length (chamadas s)) ?bs"
    by simp_all
  have k: "concat ?bs = linhas df"
    by (rule concat_lotes_esperados [OF TAMANHO_LOTE_pos])
  have n: "length ?bs = nat \<lceil>real (length (linhas df)) / 500\<rceil>"
    by (simp add: lotes_esperados_def TAMANHO_LOTE_def ceil_div [symmetric])
  have t: "inseridos + erros = length (linhas df)"
    using tamanho_dos_total [of "falha s" "length (chamadas s)" ?bs] a e k by simp
  from c n k t e a show ?thesis by blast
qed


lemma lotes_1001:
  "lotes_esperados TAMANHO_LOTE (replicate 1001 x) =
   [replicate 500 x, replicate 500 x, replicate 1 x]"
  by (simp add: lotes_esperados_def TAMANHO_LOTE_def upt_conv_Cons)

text \<open>
  C4 at 1001 rows and a store that fails the second request: three requests, of 500,
  500 and 1 rows; 501 rows inserted and 500 in error.
\<close>

theorem inserir_em_lotes_por_lote_witness:
  "fst (inserir_em_lotes (store_cenario (\<lambda>k. k = 1))
          \<lparr>colunas = COLUNAS_SAIDA, linhas = replicate 1001 registro_cenario\<rparr>) = (501, 500) \<and>
   chamadas (snd (inserir_em_lotes (store_cenario (\<lambda>k. k = 1))
          \<lparr>colunas = COLUNAS_SAIDA, linhas = replicate 1001 registro_cenario\<rparr>)) =
     [Insert (replicate 500 registro_cenario), Insert (replicate 500 registro_cenario),
      Insert (replicate 1 registro_cenario)]"
proof -
  let ?s = "store_cenario (\<lambda>k. k = 1)"
  let ?df = "\<lparr>colunas = COLUNAS_SAIDA, linhas = replicate 1001 registro_cenario\<rparr>"
  let ?x = "inserir_em_lotes ?s ?df"
  have p: "?x = ((fst (fst ?x), snd (fst ?x)), snd ?x)" by simp
  from inserir_em_lotes_por_lote [OF p]
  have "chamadas (snd ?x) = [Insert (replicate 500 registro_cenario),
          Insert (replicate 500 registro_cenario), Insert (replicate 1 registro_cenario)]"
    and "snd (fst ?x) = 500" and "fst (fst ?x) = 501"
    by (simp_all add: lotes_1001 store_cenario_def tamanho_dos_def)
  then show ?thesis by (simp add: prod_eq_iff)
qed

section \<open>Properties of login\<close>

lemma chaves_distintas_foldl:
  "distinct (map fst d) \<Longrightarrow>
   distinct (map fst
     (foldl (\<lambda>d user_entry.
               if CHR '':'' \<in> set user_entry then
                 (let (email, password) = split1 (CHR '':'') (strip user_entry)
                  in AList.update (lower (strip email)) (strip password) d)
               else d) d es))"
  by (induction es arbitrary: d) (simp_all add: distinct_update split: prod.splits)

lemma ALLOWED_USERS_distinct: "distinct (map fst (ALLOWED_USERS raw))"
  unfolding ALLOWED_USERS_def using chaves_distintas_foldl [of "[]"] by simp

lemma ALLOWED_USERS_lookup:
  "(map_of (ALLOWED_USERS raw) k = Some p) = ((k, p) \<in> set (ALLOWED_USERS raw))"
  using ALLOWED_USERS_distinct by (rule map_of_eq_Some_iff)

text \<open>
  Claim C5. Whatever the configuration and the request, \<open>login\<close> gives one of three
  answers: 403 when no user is configured; otherwise 200 with the email as it was sent
  when the email, stripped and in lower case, and the password are an entry of the
  configured users; and 401 in every other case.
\<close>

theorem login_tres_respostas:
  "(ALLOWED_USERS raw = [] \<longrightarrow>
      login (ALLOWED_USERS raw) email password =
        Inl (HTTPException 403
               (Literal (''Sistema n'' @ [CHR 0xE3] @
                         ''o configurado. Entre em contato com o administrador.'')))) \<and>
   (ALLOWED_USERS raw \<noteq> [] \<and> (lower (strip email), password) \<in> set (ALLOWED_USERS raw) \<longrightarrow>
      login (ALLOWED_USERS raw) email password =
        Inr (JObj [(''ok'', JBool True), (''email'', JStr email)])) \<and>
   (ALLOWED_USERS raw \<noteq> [] \<and> (lower (strip email), password) \<notin> set (ALLOWED_USERS raw) \<longrightarrow>
      login (ALLOWED_USERS raw) email password =
        Inl (HTTPException 401 (Literal ''E-mail ou senha incorretos'')))"
  by (simp add: login_def Let_def ALLOWED_USERS_lookup)

lemma split_exemplo:
  "split (CHR '','') ''Ana@x.com:segredo, bob@y.org : abc'' =
   [''Ana@x.com:segredo'', '' bob@y.org : abc'']"
  by simp

lemma strip_exemplos:
  "strip ''Ana@x.com:segredo'' = ''Ana@x.com:segredo''"
  "strip '' bob@y.org : abc'' = ''bob@y.org : abc''"
  "strip ''Ana@x.com'' = ''Ana@x.com''"
  "strip ''segredo'' = ''segredo''"
  "strip ''bob@y.org '' = ''bob@y.org''"
  "strip '' abc'' = ''abc''"
  "strip '' ANA@X.COM '' = ''ANA@X.COM''"
  by (simp_all add: strip_def isspace_def)

lemma lower_exemplos:
  "lower ''Ana@x.com'' = ''ana@x.com''"
  "lower ''ANA@X.COM'' = ''ana@x.com''"
  "lower ''bob@y.org'' = ''bob@y.org''"
  by (simp_all add: lower_def lower_char_def char_of_def bit_Suc_0_iff)

lemma ALLOWED_USERS_exemplo:
  "ALLOWED_USERS ''Ana@x.com:segredo, bob@y.org : abc'' =
   [(''ana@x.com'', ''segredo''), (''bob@y.org'', ''abc'')]"
  unfolding ALLOWED_USERS_def split_exemplo
  by (simp add: split1_def strip_exemplos lower_exemplos)

lemma ALLOWED_USERS_vazio: "ALLOWED_USERS [] = []"
  by (simp add: ALLOWED_USERS_def)

text \<open>
  C5 at an empty configuration, and at a configuration of two users with the right and
  with a wrong password.
\<close>

theorem login_tres_respostas_witness:
  "ALLOWED_USERS [] = [] \<and>
   login (ALLOWED_USERS []) ''ana@x.com'' ''segredo'' =
     Inl (HTTPException 403
            (Literal (''Sistema n'' @ [CHR 0xE3] @
                      ''o configurado. Entre em contato com o administrador.''))) \<and>
   ALLOWED_USERS ''Ana@x.com:segredo, bob@y.org : abc'' \<noteq> [] \<and>
   (lower (strip '' ANA@X.COM ''), ''segredo'')
     \<in> set (ALLOWED_USERS ''Ana@x.com:segredo, bob@y.org : abc'') \<and>
   login (ALLOWED_USERS ''Ana@x.com:segredo, bob@y.org : abc'') '' ANA@X.COM '' ''segredo'' =
     Inr (JObj [(''ok'', JBool True), (''email'', JStr '' ANA@X.COM '')]) \<and>
   (lower (strip '' ANA@X.COM ''), ''abc'')
     \<notin> set (ALLOWED_USERS ''Ana@x.com:segredo, bob@y.org : abc'') \<and>
   login (ALLOWED_USERS ''Ana@x.com:segredo, bob@y.org : abc'') '' ANA@X.COM '' ''abc'' =
     Inl (HTTPException 401 (Literal ''E-mail ou senha incorretos''))"
proof -
  let ?raw = "''Ana@x.com:segredo, bob@y.org : abc''"
  have n: "ALLOWED_USERS ?raw \<noteq> []" by (simp add: ALLOWED_USERS_exemplo)
  have a: "(lower (strip '' ANA@X.COM ''), ''segredo'') \<in> set (ALLOWED_USERS ?raw)"
    by (simp add: ALLOWED_USERS_exemplo strip_exemplos lower_exemplos)
  have b: "(lower (strip '' ANA@X.COM ''), ''abc'') \<notin> set (ALLOWED_USERS ?raw)"
    by (simp add: ALLOWED_USERS_exemplo strip_exemplos lower_exemplos)
  from login_tres_respostas [of "[]" "''ana@x.com''" "''segredo''"]
    login_tres_respostas [of ?raw "'' ANA@X.COM ''" "''segredo''"]
    login_tres_respostas [of ?raw "'' ANA@X.COM ''" "''abc''"]
    ALLOWED_USERS_vazio n a b
  show ?thesis by blast
qed

section \<open>Properties of extrair_mes_ano and of the routes\<close>

lemma mes_ano_montado:
  "montar_registro usuario agora r ''mes_ano'' = texto_ou_nulo (r ''MES_ANO'')"
  by (simp add: montar_registro_def RENOMEAR_def)

lemma mes_ano_SAIDA: "''mes_ano'' \<in> set COLUNAS_SAIDA"
  by (simp add: COLUNAS_SAIDA_def)

lemma manter_MES_ANO: "''MES_ANO'' \<in> set COLUNAS_MANTER"
  by (simp add: COLUNAS_MANTER_def)

lemma moda_Nil: "moda [] = []"
  by (simp add: moda_def)

lemma valor_1234_56:
  assumes "r ''VALOR'' = Some ''1234,56''"
  shows "converter_valor (limpar r ''VALOR'') = Some (Finito (123456 / 100))"
  using assms
  by (simp add: converter_limpar to_numeric_def normal_1234_56 floatify_1234_56)

text \<open>
  Claim C6 fails on the code. A file of one row with NUMFUNC, NUMVINC and VALOR in
  order and an empty MES_ANO is transformed into one row whose \<open>mes_ano\<close> is missing; on
  this frame \<open>extrair_mes_ano\<close> returns neither a value of the column nor
  \<open>DESCONHECIDO\<close>: the mode has no element and \<open>.iloc[0]\<close> raises \<open>IndexError\<close>, which the
  route \<open>importar_csv\<close> answers with 500.
\<close>

theorem extrair_mes_ano_sem_valor:
  "transformar
     \<lparr>colunas = COLUNAS_MANTER, linhas = [(linha_cenario ''1234,56'')(''MES_ANO'' := None)]\<rparr>
     ''ana'' ''2024-02-01T10:00:00'' =
   Inr (\<lparr>colunas = COLUNAS_SAIDA,
          linhas = [montar_registro ''ana'' ''2024-02-01T10:00:00''
                      (limpar ((linha_cenario ''1234,56'')(''MES_ANO'' := None)))]\<rparr>, 0) \<and>
   extrair_mes_ano
     \<lparr>colunas = COLUNAS_SAIDA,
      linhas = [montar_registro ''ana'' ''2024-02-01T10:00:00''
                  (limpar ((linha_cenario ''1234,56'')(''MES_ANO'' := None)))]\<rparr> =
   Inl IndexError \<and>
   importar_csv
     (upload_cenario COLUNAS_MANTER [(linha_cenario ''1234,56'')(''MES_ANO'' := None)])
     ''ana'' False ''2024-02-01T10:00:00'' ''2024-02-01T10:00:01'' (store_cenario (\<lambda>k. False)) =
   (Inl (HTTPException 500 (Str IndexError)), store_cenario (\<lambda>k. False))"
proof -
  let ?r = "(linha_cenario ''1234,56'')(''MES_ANO'' := None)"
  let ?reg = "montar_registro ''ana'' ''2024-02-01T10:00:00'' (limpar ?r)"
  have v: "converter_valor (limpar ?r ''VALOR'') = Some (Finito (123456 / 100))"
    by (rule valor_1234_56) (simp add: linha_cenario_def)
  have c: "criar_cod (limpar ?r) = ''12345''"
    by (rule cod_12345) (simp_all add: linha_cenario_def)
  have t: "transformar \<lparr>colunas = COLUNAS_MANTER, linhas = [?r]\<rparr>
             ''ana'' ''2024-02-01T10:00:00'' =
           Inr (\<lparr>colunas = COLUNAS_SAIDA, linhas = [?reg]\<rparr>, 0)"
    using v c by (simp add: transformar_uma [OF faltando_MANTER] linha_valida_def)
  have m: "?reg ''mes_ano'' = Nulo"
    by (simp add: mes_ano_montado limpar_manter manter_MES_ANO texto_ou_nulo_def)
  have e: "extrair_mes_ano \<lparr>colunas = COLUNAS_SAIDA, linhas = [?reg]\<rparr> = Inl IndexError"
    by (simp add: extrair_mes_ano_def mes_ano_SAIDA m textos_def moda_Nil iloc0_def)
  have i: "importar_csv (upload_cenario COLUNAS_MANTER [?r])
             ''ana'' False ''2024-02-01T10:00:00'' ''2024-02-01T10:00:01''
             (store_cenario (\<lambda>k. False)) =
           (Inl (HTTPException 500 (Str IndexError)), store_cenario (\<lambda>k. False))"
    by (simp add: importar_csv_def upload_cenario_def validar_colunas_def faltando_MANTER
        t e erro500_def Let_def)
  from t e i show ?thesis by blast
qed

text \<open>
  Claim C8 fails on the code. For the body \<open>{}\<close> the route raises the
  \<open>HTTPException\<close> 400 inside its \<open>try\<close>, the handler \<open>except Exception\<close> catches it, and
  the answer is 500 with \<open>str\<close> of that exception as its detail. No request is sent to
  the store.
\<close>

theorem deletar_competencia_rota_sem_mes_ano:
  "deletar_competencia_rota (Inr (JObj [])) s =
   (Inl (HTTPException 500
           (Str (HTTPException 400
                   (Literal (''mes_ano n'' @ [CHR 0xE3] @ ''o fornecido''))))), s)"
  by (simp add: deletar_competencia_rota_def body_get_def erro500_def)

lemma COLUNAS_MANTER_19: "length COLUNAS_MANTER = 19 \<and> distinct COLUNAS_MANTER"
  by (simp add: COLUNAS_MANTER_def)

lemma set_faltando: "set (faltando cols) = set COLUNAS_MANTER - set cols"
  by (auto simp: faltando_def)

lemma distinct_faltando: "distinct (faltando cols)"
  using COLUNAS_MANTER_19 by (simp add: faltando_def)

text \<open>
  Claim C2. The required columns are 19 distinct names. \<open>validar_colunas\<close> succeeds
  exactly when the set difference between them and the columns of the file is empty; when
  it fails, the line it prints lists the names of that difference, each once; and
  \<open>importar_csv\<close> then answers 400 and leaves the store as it was: nothing is
  transformed and no request is sent.
\<close>

theorem validar_colunas_faltando:
  "length COLUNAS_MANTER = 19 \<and> distinct COLUNAS_MANTER \<and>
   fst (validar_colunas df) = (set COLUNAS_MANTER - set (colunas df) = {}) \<and>
   (\<not> fst (validar_colunas df) \<longrightarrow>
      snd (validar_colunas df) = Ausentes (faltando (colunas df)) \<and>
      set (faltando (colunas df)) = set COLUNAS_MANTER - set (colunas df) \<and>
      distinct (faltando (colunas df))) \<and>
   (lido arq = Inr df \<and> \<not> fst (validar_colunas df) \<longrightarrow>
      importar_csv arq usuario substituir agora agora_log s =
        (Inl (HTTPException 400
                (Literal (''Estrutura do CSV inv'' @ [CHR 0xE1] @ ''lida.''))), s))"
proof -
  have a: "fst (validar_colunas df) = (set COLUNAS_MANTER - set (colunas df) = {})"
    by (simp add: validar_colunas_def faltando_vazio)
  have b: "\<not> fst (validar_colunas df) \<longrightarrow>
             snd (validar_colunas df) = Ausentes (faltando (colunas df))"
    by (simp add: validar_colunas_def)
  have c: "lido arq = Inr df \<and> \<not> fst (validar_colunas df) \<longrightarrow>
      importar_csv arq usuario substituir agora agora_log s =
        (Inl (HTTPException 400
                (Literal (''Estrutura do CSV inv'' @ [CHR 0xE1] @ ''lida.''))), s)"
    by (simp add: importar_csv_def)
  from COLUNAS_MANTER_19 a b c set_faltando [of "colunas df"] distinct_faltando [of "colunas df"]
  show ?thesis by blast
qed

lemma faltando_sem_VALOR: "faltando (butlast COLUNAS_MANTER) = [''VALOR'']"
  by (simp add: faltando_def COLUNAS_MANTER_def)

text \<open>
  C2 at a file with every required column but VALOR.
\<close>

theorem validar_colunas_faltando_witness:
  "lido (upload_cenario (butlast COLUNAS_MANTER) [linha_cenario ''1234,56'']) =
     Inr \<lparr>colunas = butlast COLUNAS_MANTER, linhas = [linha_cenario ''1234,56'']\<rparr> \<and>
   \<not> fst (validar_colunas
            \<lparr>colunas = butlast COLUNAS_MANTER, linhas = [linha_cenario ''1234,56'']\<rparr>) \<and>
   snd (validar_colunas
          \<lparr>colunas = butlast COLUNAS_MANTER, linhas = [linha_cenario ''1234,56'']\<rparr>) =
     Ausentes [''VALOR''] \<and>
   importar_csv (upload_cenario (butlast COLUNAS_MANTER) [linha_cenario ''1234,56''])
     ''ana'' True ''2024-02-01T10:00:00'' ''2024-02-01T10:00:01'' (store_cenario (\<lambda>k. False)) =
   (Inl (HTTPException 400 (Literal (''Estrutura do CSV inv'' @ [CHR 0xE1] @ ''lida.''))),
    store_cenario (\<lambda>k. False))"
proof -
  let ?df = "\<lparr>colunas = butlast COLUNAS_MANTER, linhas = [linha_cenario ''1234,56'']\<rparr>"
  let ?arq = "upload_cenario (butlast COLUNAS_MANTER) [linha_cenario ''1234,56'']"
  have l: "lido ?arq = Inr ?df" by (simp add: upload_cenario_def)
  have n: "\<not> fst (validar_colunas ?df)"
    by (simp add: validar_colunas_def faltando_sem_VALOR)
  have f: "faltando (colunas ?df) = [''VALOR'']" by (simp add: faltando_sem_VALOR)
  from validar_colunas_faltando [of ?df ?arq "''ana''" True "''2024-02-01T10:00:00''"
      "''2024-02-01T10:00:01''" "store_cenario (\<lambda>k. False)"] l n f
  show ?thesis by simp
qed

lemma transformar_Inr:
  assumes "transformar df_raw usuario agora = Inr (df, n)"
  shows "faltando (colunas df_raw) = [] \<and> colunas df = COLUNAS_SAIDA"
  using assms by (auto simp: transformar_def Let_def split: if_splits)

lemma execute_InsertLog:
  "\<not> falha s (length (chamadas s)) \<Longrightarrow>
   execute (InsertLog e) s =
     (Inr [], s\<lparr>chamadas := chamadas s @ [InsertLog e],
                 importacoes_log := importacoes_log s @ [e]\<rparr>)"
  by (simp add: execute_def Let_def)

lemma execute_falha:
  "falha s (length (chamadas s)) \<Longrightarrow>
   execute c s = (Inl ErroStore, s\<lparr>chamadas := chamadas s @ [c]\<rparr>)"
  by (simp add: execute_def Let_def)

lemma inserir_em_lotes_vazio: "linhas df = [] \<Longrightarrow> inserir_em_lotes s df = ((0, 0), s)"
  by (simp add: inserir_em_lotes_def lotes_fim)

lemma extrair_mes_ano_vazio:
  "linhas df = [] \<Longrightarrow> extrair_mes_ano df = Inr ''DESCONHECIDO''"
  by (simp add: extrair_mes_ano_def)

text \<open>
  Without \<open>substituir\<close>, and on a store that accepts the next request, an import whose
  transformed frame has no row runs to its end: the competency is \<open>DESCONHECIDO\<close>,
  \<open>inserir_em_lotes\<close> sends no request and returns \<open>(0, 0)\<close>, and the route answers 200
  after exactly one request, the insert of one log record with the three counts at 0.
\<close>

lemma importar_sem_linhas:
  assumes "lido arq = Inr df_raw"
    and "transformar df_raw usuario agora = Inr (df, n)"
    and "linhas df = []"
    and "\<not> falha s (length (chamadas s))"
  shows "extrair_mes_ano df = Inr ''DESCONHECIDO'' \<and>
         inserir_em_lotes s df = ((0, 0), s) \<and>
         importar_csv arq usuario False agora agora_log s =
           (Inr (JObj [(''ok'', JBool True), (''mes_ano'', JStr ''DESCONHECIDO''),
                       (''inseridos'', JNum 0), (''erros'', JNum 0),
                       (''operacao'', JStr ''NOVA'')]),
            s\<lparr>chamadas := chamadas s @
                  [InsertLog \<lparr>mes_ano = ''DESCONHECIDO'', operacao = ''NOVA'',
                              arquivo = filename arq, linhas_total = 0,
                              linhas_inseridas = 0, linhas_erro = 0,
                              importado_por = usuario, importado_em = agora_log\<rparr>],
              importacoes_log := importacoes_log s @
                  [\<lparr>mes_ano = ''DESCONHECIDO'', operacao = ''NOVA'',
                    arquivo = filename arq, linhas_total = 0,
                    linhas_inseridas = 0, linhas_erro = 0,
                    importado_por = usuario, importado_em = agora_log\<rparr>]\<rparr>)"
proof -
  have m: "extrair_mes_ano df = Inr ''DESCONHECIDO''"
    using assms(3) by (rule extrair_mes_ano_vazio)
  have i: "inserir_em_lotes s df = ((0, 0), s)"
    using assms(3) by (rule inserir_em_lotes_vazio)
  have v: "fst (validar_colunas df_raw)"
    using transformar_Inr [OF assms(2)] by (simp add: validar_colunas_def)
  have "importar_csv arq usuario False agora agora_log s =
           (Inr (JObj [(''ok'', JBool True), (''mes_ano'', JStr ''DESCONHECIDO''),
                       (''inseridos'', JNum 0), (''erros'', JNum 0),
                       (''operacao'', JStr ''NOVA'')]),
            s\<lparr>chamadas := chamadas s @
                  [InsertLog \<lparr>mes_ano = ''DESCONHECIDO'', operacao = ''NOVA'',
                              arquivo = filename arq, linhas_total = 0,
                              linhas_inseridas = 0, linhas_erro = 0,
                              importado_por = usuario, importado_em = agora_log\<rparr>],
              importacoes_log := importacoes_log s @
                  [\<lparr>mes_ano = ''DESCONHECIDO'', operacao = ''NOVA'',
                    arquivo = filename arq, linhas_total = 0,
                    linhas_inseridas = 0, linhas_erro = 0,
                    importado_por = usuario, importado_em = agora_log\<rparr>]\<rparr>)"
    using assms(1,2,3,4) v
    by (simp add: importar_csv_def m i registrar_log_def execute_InsertLog Let_def)
  with m i show ?thesis by blast
qed

lemma transformar_abc:
  "transformar \<lparr>colunas = COLUNAS_MANTER, linhas = [linha_cenario ''abc'']\<rparr>
     ''ana'' ''2024-02-01T10:00:00'' = Inr (\<lparr>colunas = COLUNAS_SAIDA, linhas = []\<rparr>, 1)"
proof -
  have s: "strip ''abc'' = ''abc''"
    by (rule strip_sem_espaco) (simp_all add: isspace_def)
  have x: "precise_xstrtod [] = None"
    by (simp add: precise_xstrtod_def sinal_def parte_decimal_def)
  have "converter_valor (limpar (linha_cenario ''abc'') ''VALOR'') = None"
    by (simp add: converter_limpar linha_cenario_def to_numeric_def s remover_estranhos_def
        trocar_virgula_def isdigit_ascii_def floatify_def x tolower_ascii_def)
  then show ?thesis
    by (simp add: transformar_uma [OF faltando_MANTER] linha_valida_def)
qed

text \<open>
  The same at a file whose only row has the VALOR \<open>abc\<close>, on an empty store.
\<close>

lemma importar_sem_linhas_exemplo:
  "lido (upload_cenario COLUNAS_MANTER [linha_cenario ''abc'']) =
     Inr \<lparr>colunas = COLUNAS_MANTER, linhas = [linha_cenario ''abc'']\<rparr> \<and>
   transformar \<lparr>colunas = COLUNAS_MANTER, linhas = [linha_cenario ''abc'']\<rparr>
     ''ana'' ''2024-02-01T10:00:00'' = Inr (\<lparr>colunas = COLUNAS_SAIDA, linhas = []\<rparr>, 1) \<and>
   importar_csv (upload_cenario COLUNAS_MANTER [linha_cenario ''abc''])
     ''ana'' False ''2024-02-01T10:00:00'' ''2024-02-01T10:00:01'' (store_cenario (\<lambda>k. False)) =
   (Inr (JObj [(''ok'', JBool True), (''mes_ano'', JStr ''DESCONHECIDO''),
               (''inseridos'', JNum 0), (''erros'', JNum 0), (''operacao'', JStr ''NOVA'')]),
    \<lparr>gratificacoes = [],
     importacoes_log =
       [\<lparr>mes_ano = ''DESCONHECIDO'', operacao = ''NOVA'', arquivo = ''jan.csv'',
         linhas_total = 0, linhas_inseridas = 0, linhas_erro = 0,
         importado_por = ''ana'', importado_em = ''2024-02-01T10:00:01''\<rparr>],
     chamadas =
       [InsertLog \<lparr>mes_ano = ''DESCONHECIDO'', operacao = ''NOVA'', arquivo = ''jan.csv'',
         linhas_total = 0, linhas_inseridas = 0, linhas_erro = 0,
         importado_por = ''ana'', importado_em = ''2024-02-01T10:00:01''\<rparr>],
     falha = (\<lambda>k. False)\<rparr>)"
proof -
  let ?arq = "upload_cenario COLUNAS_MANTER [linha_cenario ''abc'']"
  let ?s = "store_cenario (\<lambda>k. False)"
  have l: "lido ?arq = Inr \<lparr>colunas = COLUNAS_MANTER, linhas = [linha_cenario ''abc'']\<rparr>"
    by (simp add: upload_cenario_def)
  have e: "linhas \<lparr>colunas = COLUNAS_SAIDA, linhas = []\<rparr> = ([] :: registro list)" by simp
  have f: "\<not> falha ?s (length (chamadas ?s))" by (simp add: store_cenario_def)
  from importar_sem_linhas [OF l transformar_abc e f, of "''2024-02-01T10:00:01''"]
    l transformar_abc
  show ?thesis by (simp add: upload_cenario_def store_cenario_def)
qed

text \<open>
  Claim C10 fails on the code. The file whose only row has the VALOR \<open>abc\<close> is
  transformed into a frame without rows. Imported with \<open>substituir\<close> set, on a store
  that fails no request, the route does not run to its end: the call of
  \<open>deletar_competencia\<close> raises \<open>TypeError\<close>, the answer is 500, no request is sent and
  no log record is written.
\<close>

theorem importar_substituir_sem_linhas:
  "transformar \<lparr>colunas = COLUNAS_MANTER, linhas = [linha_cenario ''abc'']\<rparr>
     ''ana'' ''2024-02-01T10:00:00'' = Inr (\<lparr>colunas = COLUNAS_SAIDA, linhas = []\<rparr>, 1) \<and>
   importar_csv (upload_cenario COLUNAS_MANTER [linha_cenario ''abc''])
     ''ana'' True ''2024-02-01T10:00:00'' ''2024-02-01T10:00:01'' (store_cenario (\<lambda>k. False)) =
   (Inl (HTTPException 500 (Str TypeError)),
    \<lparr>gratificacoes = [], importacoes_log = [], chamadas = [], falha = (\<lambda>k. False)\<rparr>)"
proof -
  have v: "fst (validar_colunas \<lparr>colunas = COLUNAS_MANTER, linhas = [linha_cenario ''abc'']\<rparr>)"
    by (simp add: validar_colunas_def faltando_MANTER)
  have b: "importar_csv (upload_cenario COLUNAS_MANTER [linha_cenario ''abc''])
     ''ana'' True ''2024-02-01T10:00:00'' ''2024-02-01T10:00:01'' (store_cenario (\<lambda>k. False)) =
   (Inl (HTTPException 500 (Str TypeError)),
    \<lparr>gratificacoes = [], importacoes_log = [], chamadas = [], falha = (\<lambda>k. False)\<rparr>)"
    using v
    by (simp add: importar_csv_def upload_cenario_def transformar_abc extrair_mes_ano_vazio
        erro500_def Let_def store_cenario_def)
  from transformar_abc b show ?thesis by blast
qed

section \<open>Properties of validar_csv\<close>

lemma ja_existe_frame:
  assumes "ja_existe m s = (r, s1)"
  shows "gratificacoes s1 = gratificacoes s \<and> importacoes_log s1 = importacoes_log s \<and>
         falha s1 = falha s \<and>
         (\<exists>cs. chamadas s1 = chamadas s @ cs \<and> list_all somente_leitura cs)"
proof (cases m)
  case None
  with assms show ?thesis by (simp add: ja_existe_def)
next
  case (Some t)
  show ?thesis
  proof (cases "t = []")
    case True
    with assms Some show ?thesis by (simp add: ja_existe_def)
  next
    case False
    with assms Some have "s1 = s\<lparr>chamadas := chamadas s @ [Select (JStr t)]\<rparr>"
      by (auto simp: ja_existe_def execute_def Let_def split: if_splits)
    then show ?thesis by simp
  qed
qed

lemma ja_existe_det:
  assumes "gratificacoes s2 = gratificacoes s"
    and "falha s2 (length (chamadas s2)) = falha s (length (chamadas s))"
  shows "fst (ja_existe m s2) = fst (ja_existe m s)"
  using assms by (simp add: ja_existe_def execute_def Let_def split: option.splits)

lemma fst_validar_csv:
  "fst (validar_csv arq s) =
     (case lido arq of
        Inl e \<Rightarrow> Inl (erro500 e)
      | Inr df \<Rightarrow>
          (case mes_ano_bruto df of
             Inl e \<Rightarrow> Inl (erro500 e)
           | Inr m \<Rightarrow>
               (case fst (ja_existe m s) of
                  Inl e \<Rightarrow> Inl (erro500 e)
                | Inr existe \<Rightarrow>
                    Inr (JObj
                      [(''ok'', JBool (faltando (colunas df) = [])),
                       (''total_linhas'', JNum (int (length (linhas df)))),
                       (''colunas_faltando'', JList (map JStr (faltando (colunas df)))),
                       (''mes_ano'', json_opt m),
                       (''ja_existe'', JBool existe),
                       (''valores_invalidos'', JNum (int (valores_invalidos df))),
                       (''preview'', JList (preview df)),
                       (''encoding'', json_opt (encoding arq))]))))"
  by (simp add: validar_csv_def Let_def split: sum.splits prod.splits)

lemma snd_validar_csv:
  "snd (validar_csv arq s) =
     (case lido arq of
        Inl e \<Rightarrow> s
      | Inr df \<Rightarrow>
          (case mes_ano_bruto df of
             Inl e \<Rightarrow> s
           | Inr m \<Rightarrow> snd (ja_existe m s)))"
  by (simp add: validar_csv_def Let_def split: sum.splits prod.splits)

lemma validar_csv_frame:
  "gratificacoes (snd (validar_csv arq s)) = gratificacoes s \<and>
   importacoes_log (snd (validar_csv arq s)) = importacoes_log s \<and>
   falha (snd (validar_csv arq s)) = falha s \<and>
   (\<exists>cs. chamadas (snd (validar_csv arq s)) = chamadas s @ cs \<and>
         list_all somente_leitura cs)"
proof -
  have triv: "\<exists>cs. chamadas s = chamadas s @ cs \<and> list_all somente_leitura cs"
    by (rule exI [of _ "[]"]) simp
  show ?thesis
  proof (cases "lido arq")
    case (Inl e)
    with triv show ?thesis by (simp add: snd_validar_csv)
  next
    case (Inr df)
    show ?thesis
    proof (cases "mes_ano_bruto df")
      case (Inl e)
      with Inr triv show ?thesis by (simp add: snd_validar_csv)
    next
      case m: (Inr m)
      have "ja_existe m s = (fst (ja_existe m s), snd (ja_existe m s))" by simp
      from ja_existe_frame [OF this] Inr m show ?thesis by (simp add: snd_validar_csv)
    qed
  qed
qed

lemma validar_csv_det:
  assumes "gratificacoes s2 = gratificacoes s"
    and "falha s2 (length (chamadas s2)) = falha s (length (chamadas s))"
  shows "fst (validar_csv arq s2) = fst (validar_csv arq s)"
proof -
  have j: "fst (ja_existe m s2) = fst (ja_existe m s)" for m
    by (rule ja_existe_det [OF assms])
  show ?thesis unfolding fst_validar_csv j ..
qed

text \<open>
  Claim C7. For every upload and every store, \<open>validar_csv\<close> leaves both tables of the
  store as they were, and every request it sends is a select. Its answer (the preview,
  the counts, \<open>mes_ano\<close>, the missing columns and the rest) depends on the upload, on
  the rows of the store and on whether the store answers the select, and on nothing
  else: a call on any store with the same rows, whose next request fares the same, gives
  the same answer; so does, in particular, a second call made right after the first.
\<close>

theorem validar_csv_somente_leitura:
  assumes "validar_csv arq s = (resp, s1)"
  shows "gratificacoes s1 = gratificacoes s \<and> importacoes_log s1 = importacoes_log s \<and>
         (\<exists>cs. chamadas s1 = chamadas s @ cs \<and> list_all somente_leitura cs) \<and>
         (\<forall>s2. gratificacoes s2 = gratificacoes s \<and>
               falha s2 (length (chamadas s2)) = falha s (length (chamadas s)) \<longrightarrow>
               fst (validar_csv arq s2) = resp) \<and>
         (falha s (length (chamadas s1)) = falha s (length (chamadas s)) \<longrightarrow>
            fst (validar_csv arq s1) = resp)"
proof -
  from assms have r: "resp = fst (validar_csv arq s)" and s1: "s1 = snd (validar_csv arq s)"
    by simp_all
  from validar_csv_frame [of arq s] s1
  have g: "gratificacoes s1 = gratificacoes s"
    and l: "importacoes_log s1 = importacoes_log s"
    and f: "falha s1 = falha s"
    and c: "\<exists>cs. chamadas s1 = chamadas s @ cs \<and> list_all somente_leitura cs"
    by simp_all
  have d: "\<forall>s2. gratificacoes s2 = gratificacoes s \<and>
               falha s2 (length (chamadas s2)) = falha s (length (chamadas s)) \<longrightarrow>
               fst (validar_csv arq s2) = resp"
  proof (intro allI impI)
    fix s2 :: supabase
    assume "gratificacoes s2 = gratificacoes s \<and>
               falha s2 (length (chamadas s2)) = falha s (length (chamadas s))"
    then have "fst (validar_csv arq s2) = fst (validar_csv arq s)"
      by (intro validar_csv_det) blast+
    with r show "fst (validar_csv arq s2) = resp" by (simp only:)
  qed
  have e: "falha s (length (chamadas s1)) = falha s (length (chamadas s)) \<longrightarrow>
            fst (validar_csv arq s1) = resp"
  proof
    assume "falha s (length (chamadas s1)) = falha s (length (chamadas s))"
    with g f have "gratificacoes s1 = gratificacoes s \<and>
               falha s1 (length (chamadas s1)) = falha s (length (chamadas s))" by simp
    with d show "fst (validar_csv arq s1) = resp" by blast
  qed
  from g l c d e show ?thesis by blast
qed

lemma moda_um: "moda [x] = [x]"
  by (simp add: moda_def)

lemma strip_01_2024: "strip ''01/2024'' = ''01/2024''"
  by (rule strip_sem_espaco) (simp_all add: isspace_def)

lemma mes_ano_bruto_cenario:
  "mes_ano_bruto \<lparr>colunas = COLUNAS_MANTER, linhas = [linha_cenario v]\<rparr> = Inr (Some ''01/2024'')"
  by (simp add: mes_ano_bruto_def manter_MES_ANO linha_cenario_def presentes_def moda_um
      iloc0_def strip_01_2024)

lemma registro_cenario_mes_ano: "registro_cenario ''mes_ano'' = Texto ''01/2024''"
  by (simp add: registro_cenario_def mes_ano_montado limpar_manter manter_MES_ANO
      linha_cenario_def texto_ou_nulo_def strip_01_2024)

lemma preview_cenario:
  "preview \<lparr>colunas = COLUNAS_MANTER, linhas = [linha_cenario ''1234,56'']\<rparr> =
   [JObj [(''NUMFUNC'', JStr ''123''), (''NUMVINC'', JStr ''45''), (''MES_ANO'', JStr ''01/2024''),
          (''COMPETENCIA'', JStr ''''), (''NOME_RUBRICA'', JStr ''''),
          (''VALOR'', JStr ''1234,56'')]]"
  by (simp add: preview_def COLUNAS_PREVIEW_def COLUNAS_MANTER_def linha_cenario_def fillna_def)

lemma valores_invalidos_cenario:
  "valores_invalidos \<lparr>colunas = COLUNAS_MANTER, linhas = [linha_cenario ''1234,56'']\<rparr> = 0"
proof -
  have "trocar_virgula ''1234,56'' = ''1234.56''" by (simp add: trocar_virgula_def)
  then show ?thesis
    by (simp add: valores_invalidos_def manter_VALOR linha_cenario_def to_numeric_def
        floatify_1234_56)
qed

text \<open>
  C7 at the file of the first scenario (VALOR \<open>1234,56\<close>) and a store that holds one row
  of the competency 01/2024: the answer, the store after the call, and the same answer
  from a second call on that store.
\<close>

theorem validar_csv_somente_leitura_witness:
  "validar_csv (upload_cenario COLUNAS_MANTER [linha_cenario ''1234,56''])
     \<lparr>gratificacoes = [registro_cenario], importacoes_log = [], chamadas = [],
      falha = (\<lambda>k. False)\<rparr> =
   (Inr (JObj
      [(''ok'', JBool True), (''total_linhas'', JNum 1), (''colunas_faltando'', JList []),
       (''mes_ano'', JStr ''01/2024''), (''ja_existe'', JBool True),
       (''valores_invalidos'', JNum 0),
       (''preview'', JList
          [JObj [(''NUMFUNC'', JStr ''123''), (''NUMVINC'', JStr ''45''),
                 (''MES_ANO'', JStr ''01/2024''), (''COMPETENCIA'', JStr ''''),
                 (''NOME_RUBRICA'', JStr ''''), (''VALOR'', JStr ''1234,56'')]]),
       (''encoding'', JStr ''utf-8'')]),
    \<lparr>gratificacoes = [registro_cenario], importacoes_log = [],
     chamadas = [Select (JStr ''01/2024'')], falha = (\<lambda>k. False)\<rparr>) \<and>
   fst (validar_csv (upload_cenario COLUNAS_MANTER [linha_cenario ''1234,56''])
     \<lparr>gratificacoes = [registro_cenario], importacoes_log = [],
      chamadas = [Select (JStr ''01/2024'')], falha = (\<lambda>k. False)\<rparr>) =
   Inr (JObj
      [(''ok'', JBool True), (''total_linhas'', JNum 1), (''colunas_faltando'', JList []),
       (''mes_ano'', JStr ''01/2024''), (''ja_existe'', JBool True),
       (''valores_invalidos'', JNum 0),
       (''preview'', JList
          [JObj [(''NUMFUNC'', JStr ''123''), (''NUMVINC'', JStr ''45''),
                 (''MES_ANO'', JStr ''01/2024''), (''COMPETENCIA'', JStr ''''),
                 (''NOME_RUBRICA'', JStr ''''), (''VALOR'', JStr ''1234,56'')]]),
       (''encoding'', JStr ''utf-8'')])"
proof -
  let ?arq = "upload_cenario COLUNAS_MANTER [linha_cenario ''1234,56'']"
  let ?s = "\<lparr>gratificacoes = [registro_cenario], importacoes_log = [], chamadas = [],
             falha = (\<lambda>k. False)\<rparr>"
  let ?s1 = "\<lparr>gratificacoes = [registro_cenario], importacoes_log = [],
              chamadas = [Select (JStr ''01/2024'')], falha = (\<lambda>k. False)\<rparr>"
  let ?resp = "Inr (JObj
      [(''ok'', JBool True), (''total_linhas'', JNum 1), (''colunas_faltando'', JList []),
       (''mes_ano'', JStr ''01/2024''), (''ja_existe'', JBool True),
       (''valores_invalidos'', JNum 0),
       (''preview'', JList
          [JObj [(''NUMFUNC'', JStr ''123''), (''NUMVINC'', JStr ''45''),
                 (''MES_ANO'', JStr ''01/2024''), (''COMPETENCIA'', JStr ''''),
                 (''NOME_RUBRICA'', JStr ''''), (''VALOR'', JStr ''1234,56'')]]),
       (''encoding'', JStr ''utf-8'')]) :: excecao + json"
  have j: "ja_existe (Some ''01/2024'') ?s = (Inr True, ?s1)"
    by (simp add: ja_existe_def execute_def Let_def eq_mes_ano_def registro_cenario_mes_ano)
  have v: "validar_csv ?arq ?s = (?resp, ?s1)"
    by (simp add: validar_csv_def upload_cenario_def Let_def faltando_MANTER
        mes_ano_bruto_cenario j json_opt_def valores_invalidos_cenario preview_cenario)
  have f: "falha ?s (length (chamadas ?s1)) = falha ?s (length (chamadas ?s))" by simp
  from validar_csv_somente_leitura [OF v] f
  have "fst (validar_csv ?arq ?s1) = ?resp" by blast
  with v show ?thesis by blast
qed

end
